theory Spec2Isabelle
  imports Main
begin

section \<open>Bind parameters of a prepared statement (class Statement)\<close>

text \<open>
  The values a caller can hand to \<open>normalizeParams(...params: any[])\<close>. Only the
  shape of a value matters to the function (its \<open>typeof\<close> tag and whether it is an
  array), so numbers carry an opaque payload. \<open>typeof null\<close> is \<open>'object'\<close> in
  JavaScript, and a \<open>Uint8Array\<close> is an object that \<open>Array.isArray\<close> rejects.
\<close>

datatype js_value =
    JSUndefined
  | JSNull
  | JSBoolean bool
  | JSNumber int
  | JSString string
  | JSFunction string
  | JSUint8Array "nat list"
  | JSArray "js_value list"
  | JSObject "(string \<times> js_value) list"

fun typeof :: "js_value \<Rightarrow> string" where
  "typeof JSUndefined = ''undefined''"
| "typeof JSNull = ''object''"
| "typeof (JSBoolean b) = ''boolean''"
| "typeof (JSNumber n) = ''number''"
| "typeof (JSString s) = ''string''"
| "typeof (JSFunction f) = ''function''"
| "typeof (JSUint8Array bs) = ''object''"
| "typeof (JSArray xs) = ''object''"
| "typeof (JSObject kvs) = ''object''"

fun Array_isArray :: "js_value \<Rightarrow> bool" where
  "Array_isArray (JSArray xs) = True"
| "Array_isArray v = False"

text \<open>\<open>params[0]\<close>: reading past the end of a JavaScript array yields \<open>undefined\<close>.\<close>

fun first_param :: "js_value list \<Rightarrow> js_value" where
  "first_param [] = JSUndefined"
| "first_param (v # vs) = v"

record normalized_params =
  params :: js_value
  shouldPassAsObject :: bool

definition normalizeParams :: "js_value list \<Rightarrow> normalized_params" where
  "normalizeParams ps =
     (let bindParams = (if length ps > 1 then JSArray ps else first_param ps);
          bindParams = (if typeof bindParams \<noteq> ''object'' then JSArray [bindParams]
                        else bindParams);
          shouldPass = (\<not> Array_isArray bindParams)
      in \<lparr>params = bindParams, shouldPassAsObject = shouldPass\<rparr>)"

text \<open>
  The native entry points of \<open>NativeStatement\<close> that the \<open>Statement\<close> methods call,
  each with the bind parameters it is given.
\<close>

datatype native_call =
    ObjectRunAsync js_value | ArrayRunAsync js_value
  | ObjectGetAsync js_value | ArrayGetAsync js_value
  | ObjectGetAllAsync js_value | ArrayGetAllAsync js_value
  | ObjectRunSync js_value | ArrayRunSync js_value
  | ObjectGetSync js_value | ArrayGetSync js_value
  | ObjectGetAllSync js_value | ArrayGetAllSync js_value

fun is_object_binding :: "native_call \<Rightarrow> bool" where
  "is_object_binding (ObjectRunAsync p) = True"
| "is_object_binding (ObjectGetAsync p) = True"
| "is_object_binding (ObjectGetAllAsync p) = True"
| "is_object_binding (ObjectRunSync p) = True"
| "is_object_binding (ObjectGetSync p) = True"
| "is_object_binding (ObjectGetAllSync p) = True"
| "is_object_binding c = False"

definition runAsync :: "js_value list \<Rightarrow> native_call" where
  "runAsync ps = (let n = normalizeParams ps in
     if shouldPassAsObject n then ObjectRunAsync (params n) else ArrayRunAsync (params n))"

text \<open>
  \<open>eachAsync\<close> and \<open>eachSync\<close> pick the native function once and then call it until
  it returns null; the function picked is what is modelled.
\<close>

definition eachAsync :: "js_value list \<Rightarrow> native_call" where
  "eachAsync ps = (let n = normalizeParams ps in
     if shouldPassAsObject n then ObjectGetAsync (params n) else ArrayGetAsync (params n))"

definition getAsync :: "js_value list \<Rightarrow> native_call" where
  "getAsync ps = (let n = normalizeParams ps in
     if shouldPassAsObject n then ObjectGetAsync (params n) else ArrayGetAsync (params n))"

definition allAsync :: "js_value list \<Rightarrow> native_call" where
  "allAsync ps = (let n = normalizeParams ps in
     if shouldPassAsObject n then ObjectGetAllAsync (params n) else ArrayGetAllAsync (params n))"

definition runSync :: "js_value list \<Rightarrow> native_call" where
  "runSync ps = (let n = normalizeParams ps in
     if shouldPassAsObject n then ObjectRunSync (params n) else ArrayRunSync (params n))"

definition eachSync :: "js_value list \<Rightarrow> native_call" where
  "eachSync ps = (let n = normalizeParams ps in
     if shouldPassAsObject n then ObjectGetSync (params n) else ArrayGetSync (params n))"

definition getSync :: "js_value list \<Rightarrow> native_call" where
  "getSync ps = (let n = normalizeParams ps in
     if shouldPassAsObject n then ObjectGetSync (params n) else ArrayGetSync (params n))"

definition allSync :: "js_value list \<Rightarrow> native_call" where
  "allSync ps = (let n = normalizeParams ps in
     if shouldPassAsObject n then ObjectGetAllSync (params n) else ArrayGetAllSync (params n))"

text \<open>
  A value that is an object and not an array: a plain object or a \<open>Uint8Array\<close>.
  \<open>null\<close> is a scalar bind value and not an object, whatever \<open>typeof\<close> reports for
  it, and so is every other primitive value. A function is no bind value at all; it is
  counted with the values that are not objects.
\<close>

fun is_non_array_object :: "js_value \<Rightarrow> bool" where
  "is_non_array_object (JSObject kvs) = True"
| "is_non_array_object (JSUint8Array bs) = True"
| "is_non_array_object v = False"

text \<open>An argument list that consists of a single non-array object.\<close>

definition single_non_array_object :: "js_value list \<Rightarrow> bool" where
  "single_non_array_object ps = (case ps of [v] \<Rightarrow> is_non_array_object v | _ \<Rightarrow> False)"


section \<open>The update lifecycle engine (UpdatesController)\<close>

subsection \<open>Data\<close>

text \<open>
  An exception of class \<open>Exception\<close> is carried by its message. The two throwables
  the controller raises itself are kept apart: \<open>AssertionError\<close> is thrown by
  \<open>start\<close> and \<open>notifyController\<close>, reading the \<open>lateinit\<close> database handler
  before it is initialised raises \<open>UninitializedPropertyAccessException\<close>, and the
  \<open>!!\<close> operator on a null value raises \<open>NullPointerException\<close>.
\<close>

type_synonym exception = string

datatype throwable =
    AssertionError string
  | UninitializedPropertyAccessException string
  | NullPointerException string

text \<open>
  What code outside the controller can throw into it (a metadata operation, a caller's
  callback): an \<open>Exception\<close>, which \<open>catch (e: Exception)\<close> catches, or another
  \<open>Throwable\<close>, an \<open>Error\<close>, which that clause lets through.
\<close>

datatype thrown =
    Exception exception
  | Error string

text \<open>
  The fields of an update row that the controller reads. The launch counters are
  non-negative and far below the range of their machine type, so they are naturals.
\<close>

record UpdateEntity =
  updateId :: string
  commitTime :: nat
  manifest :: string
  failedLaunchCount :: nat
  successfulLaunchCount :: nat

type_synonym manifest_filters = "(string \<times> string) list"

record UpdateManifest =
  updateEntity :: "UpdateEntity option"
  rawJson :: string

datatype UpdateDirective =
    NoUpdateAvailableUpdateDirective
  | RollBackToEmbeddedUpdateDirective nat

text \<open>
  A server response: either part may be absent, and so may the header data.
\<close>

record UpdateResponse =
  directiveUpdateResponsePart :: "UpdateDirective option"
  manifestUpdateResponsePart :: "UpdateManifest option"
  manifestFilters :: "manifest_filters option"

text \<open>
  The selection policy is a strategy object the controller holds; its two decision
  functions used here are fields.
\<close>

record SelectionPolicy =
  shouldLoadNewUpdate ::
    "UpdateEntity option \<Rightarrow> UpdateEntity option \<Rightarrow> manifest_filters option \<Rightarrow> bool"
  shouldLoadRollBackToEmbeddedDirective ::
    "UpdateDirective \<Rightarrow> UpdateEntity \<Rightarrow> UpdateEntity option \<Rightarrow> manifest_filters option \<Rightarrow> bool"

text \<open>The getters of the \<open>Launcher\<close> interface that the controller reads.\<close>

record Launcher =
  launchedUpdate :: "UpdateEntity option"
  launchAssetFile :: "string option"
  localAssetFiles :: "(string \<times> string) list option"
  isUsingEmbeddedAssets :: bool

record UpdatesConfiguration =
  isEnabled :: bool
  updateUrl :: "string option"
  scopeKey :: "string option"
  hasEmbeddedUpdate :: bool

record UpdatesDatabase =
  updates :: "UpdateEntity list"
  jsonData :: "(string \<times> string) list"

text \<open>
  What the controller obtains from the Android \<open>Context\<close> and from collaborators whose
  code is not part of these sources; each is a parameter of the model:
  the result of \<open>UpdatesUtils.getOrCreateUpdatesDirectory\<close>, the embedded manifest's
  update, the database instance, the default (filter-aware) selection policy for a
  configuration, the build-data consistency check, and the two \<open>ManifestMetadata\<close>
  operations, which return or throw.
\<close>

record Context =
  getOrCreateUpdatesDirectory :: "exception + string"
  embeddedUpdate :: "UpdatesConfiguration \<Rightarrow> UpdateEntity option"
  databaseInstance :: UpdatesDatabase
  createFilterAwarePolicy :: "UpdatesConfiguration \<Rightarrow> SelectionPolicy"
  ensureBuildDataIsConsistent :: "UpdatesConfiguration \<Rightarrow> UpdatesDatabase \<Rightarrow> UpdatesDatabase"
  ManifestMetadata_getExtraParams ::
    "UpdatesDatabase \<Rightarrow> UpdatesConfiguration \<Rightarrow> thrown + (string \<times> string) list option"
  ManifestMetadata_setExtraParam ::
    "UpdatesDatabase \<Rightarrow> UpdatesConfiguration \<Rightarrow> string \<Rightarrow> string option
       \<Rightarrow> thrown + UpdatesDatabase"

datatype RemoteLoadStatus = IDLE | NEW_UPDATE_LOADING | NEW_UPDATE_LOADED

record LoaderTask =
  taskConfiguration :: UpdatesConfiguration
  taskDirectory :: "string option"
  taskSelectionPolicy :: SelectionPolicy

record UpdatesController =
  updatesConfiguration :: UpdatesConfiguration
  updatesDirectory :: "string option"
  updatesDirectoryException :: "exception option"
  launcher :: "Launcher option"
  database :: UpdatesDatabase
  databaseHandlerInitialized :: bool
  errorRecoveryInitialized :: bool
  isStarted :: bool
  loaderTask :: "LoaderTask option"
  remoteLoadStatus :: RemoteLoadStatus
  mSelectionPolicy :: "SelectionPolicy option"
  defaultSelectionPolicy :: SelectionPolicy
  isLoaderTaskFinished :: bool
  isEmergencyLaunch :: bool

datatype RemoteCheckResultNotAvailableReason =
    NO_UPDATE_AVAILABLE_ON_SERVER
  | UPDATE_REJECTED_BY_SELECTION_POLICY
  | UPDATE_PREVIOUSLY_FAILED
  | ROLLBACK_REJECTED_BY_SELECTION_POLICY
  | ROLLBACK_NO_EMBEDDED

datatype CheckForUpdateResult =
    NoUpdateAvailable RemoteCheckResultNotAvailableReason
  | UpdateAvailable UpdateManifest
  | RollBackToEmbedded nat
  | ErrorResult exception string

datatype UpdatesStateEvent =
    Check
  | CheckCompleteUnavailable
  | CheckCompleteWithUpdate string
  | CheckCompleteWithRollback nat
  | CheckError string
  | Download
  | DownloadComplete
  | DownloadCompleteWithUpdate string
  | DownloadCompleteWithRollback
  | DownloadError string
  | Restart

text \<open>
  What an operation does to the world outside the controller's fields, in the order it
  does it: taking and releasing the database lease, handing an event to the state
  machine (\<open>stateMachine.processEvent\<close>), invoking a caller's callback, waking the
  threads that wait on the controller, and starting work elsewhere. A callback is the
  caller's code; its invocation is recorded. The callbacks of \<open>getExtraParams\<close> and
  \<open>setExtraParam\<close> are parameters that return or throw; the result callback of
  \<open>checkForUpdate\<close> is taken to return.
\<close>

datatype effect =
    AcquireDatabase
  | ReleaseDatabase
  | ProcessEvent UpdatesStateEvent
  | CheckForUpdateCallback CheckForUpdateResult
  | GetExtraParamsOnSuccess "(string \<times> string) list"
  | GetExtraParamsOnFailure exception
  | SetExtraParamsOnSuccess
  | SetExtraParamsOnFailure exception
  | Notify
  | PurgeUpdatesLogs
  | LoaderTaskStart
  | DownloadRemoteUpdate
  | LoggerError string
  | RelaunchOnFailure exception
  | RelaunchOnSuccess
  | SetJSBundleLoader string
  | RecreateReactContext
  | RunReaper
  | StateMachineReset

subsection \<open>The no-database launcher\<close>

text \<open>
  \<open>AppLauncherNoDatabase\<close> as the sources have it: three optional properties, all
  nil after \<open>init\<close>. \<open>launchUpdate\<close> reads the embedded manifest and, when there is
  one, checks the precondition that \<open>assetFilesMap\<close> is nil (a failed precondition
  stops the program) and sets the launch asset URL to the bundle's resource URL. The
  embedded manifest and the resource URL come from the application bundle and are
  parameters.
\<close>

record AppLauncherNoDatabase =
  nd_launchedUpdate :: "UpdateEntity option"
  nd_launchAssetUrl :: "string option"
  nd_assetFilesMap :: "(string \<times> string) list option"

definition AppLauncherNoDatabase_init :: AppLauncherNoDatabase where
  "AppLauncherNoDatabase_init =
     \<lparr>nd_launchedUpdate = None, nd_launchAssetUrl = None, nd_assetFilesMap = None\<rparr>"

definition launchUpdate ::
  "UpdateEntity option \<Rightarrow> string option \<Rightarrow> AppLauncherNoDatabase \<Rightarrow> string + AppLauncherNoDatabase"
where
  "launchUpdate embeddedManifest bundleUrl l =
     (let l1 = l\<lparr>nd_launchedUpdate := embeddedManifest\<rparr> in
      if nd_launchedUpdate l1 \<noteq> None then
        (if nd_assetFilesMap l1 = None then Inr (l1\<lparr>nd_launchAssetUrl := bundleUrl\<rparr>)
         else Inl ''assetFilesMap should be null for embedded updates'')
      else Inr l1)"

definition AppLauncherNoDatabase_isUsingEmbeddedAssets :: "AppLauncherNoDatabase \<Rightarrow> bool" where
  "AppLauncherNoDatabase_isUsingEmbeddedAssets l = (nd_assetFilesMap l = None)"

text \<open>Any number of \<open>launchUpdate\<close> calls in a row, stopping at a failed precondition.\<close>

fun launchUpdates ::
  "(UpdateEntity option \<times> string option) list \<Rightarrow> AppLauncherNoDatabase
     \<Rightarrow> string + AppLauncherNoDatabase"
where
  "launchUpdates [] l = Inr l"
| "launchUpdates ((m, u) # cs) l =
     (case launchUpdate m u l of Inl e \<Rightarrow> Inl e | Inr l' \<Rightarrow> launchUpdates cs l')"

text \<open>
  Modelled from the spec: the Kotlin class \<open>NoDatabaseLauncher\<close>, which \<open>start\<close> and
  the loader task's \<open>onFailure\<close> construct, is not among the sources. The spec says
  that \<open>launchAssetFile\<close> is null on an emergency launch and that such a launch
  bypasses the catalog; the launcher is therefore the freshly constructed
  \<open>AppLauncherNoDatabase\<close> seen through the \<open>Launcher\<close> interface. The fatal
  exception passed to the constructor is only reported, never stored in a getter.
\<close>

definition NoDatabaseLauncher :: "Context \<Rightarrow> exception option \<Rightarrow> Launcher" where
  "NoDatabaseLauncher context fatalException =
     (let l = AppLauncherNoDatabase_init in
      \<lparr>launchedUpdate = nd_launchedUpdate l,
       launchAssetFile = nd_launchAssetUrl l,
       localAssetFiles = nd_assetFilesMap l,
       isUsingEmbeddedAssets = AppLauncherNoDatabase_isUsingEmbeddedAssets l\<rparr>)"

subsection \<open>The catalog's update table\<close>

text \<open>
  Modelled from the spec: the data-access object \<open>updateDao()\<close> is not among the
  sources. The catalog provides transactional read of update rows; \<open>loadUpdateWithId\<close>
  finds the row with the given id, if there is one.
\<close>

definition loadUpdateWithId :: "UpdatesDatabase \<Rightarrow> string \<Rightarrow> UpdateEntity option" where
  "loadUpdateWithId db i = find (\<lambda>r. updateId r = i) (updates db)"

text \<open>
  Modelled from the spec: \<open>updateDao().incrementFailedLaunchCount\<close> is not among the
  sources. The catalog provides write of the failed launch counter; the increment adds
  one to that counter of the row with the update's id and leaves every other row and
  field as it is.
\<close>

definition incrementFailedLaunchCount :: "UpdatesDatabase \<Rightarrow> UpdateEntity \<Rightarrow> UpdatesDatabase" where
  "incrementFailedLaunchCount db u =
     db\<lparr>updates := map (\<lambda>r. if updateId r = updateId u
                              then r\<lparr>failedLaunchCount := failedLaunchCount r + 1\<rparr> else r)
                       (updates db)\<rparr>"

text \<open>
  Modelled from the spec: \<open>updateDao().incrementSuccessfulLaunchCount\<close> is not among
  the sources. It is the same write for the successful launch counter.
\<close>

definition incrementSuccessfulLaunchCount :: "UpdatesDatabase \<Rightarrow> UpdateEntity \<Rightarrow> UpdatesDatabase" where
  "incrementSuccessfulLaunchCount db u =
     db\<lparr>updates := map (\<lambda>r. if updateId r = updateId u
                              then r\<lparr>successfulLaunchCount := successfulLaunchCount r + 1\<rparr> else r)
                       (updates db)\<rparr>"


subsection \<open>Construction, getters and start\<close>

text \<open>
  The constructor with its \<open>init\<close> block: the updates directory is created, and an
  exception from that is caught and kept beside a null directory.
\<close>

definition UpdatesController :: "Context \<Rightarrow> UpdatesConfiguration \<Rightarrow> UpdatesController" where
  "UpdatesController context configuration =
     \<lparr>updatesConfiguration = configuration,
      updatesDirectory = (case getOrCreateUpdatesDirectory context of
                            Inl e \<Rightarrow> None | Inr d \<Rightarrow> Some d),
      updatesDirectoryException = (case getOrCreateUpdatesDirectory context of
                                     Inl e \<Rightarrow> Some e | Inr d \<Rightarrow> None),
      launcher = None,
      database = databaseInstance context,
      databaseHandlerInitialized = False,
      errorRecoveryInitialized = False,
      isStarted = False,
      loaderTask = None,
      remoteLoadStatus = IDLE,
      mSelectionPolicy = None,
      defaultSelectionPolicy = createFilterAwarePolicy context configuration,
      isLoaderTaskFinished = False,
      isEmergencyLaunch = False\<rparr>"

definition controller_launchedUpdate :: "UpdatesController \<Rightarrow> UpdateEntity option" where
  "controller_launchedUpdate s =
     (case launcher s of None \<Rightarrow> None | Some l \<Rightarrow> launchedUpdate l)"

definition controller_isUsingEmbeddedAssets :: "UpdatesController \<Rightarrow> bool" where
  "controller_isUsingEmbeddedAssets s =
     (case launcher s of None \<Rightarrow> False | Some l \<Rightarrow> isUsingEmbeddedAssets l)"

definition selectionPolicy :: "UpdatesController \<Rightarrow> SelectionPolicy" where
  "selectionPolicy s =
     (case mSelectionPolicy s of None \<Rightarrow> defaultSelectionPolicy s | Some p \<Rightarrow> p)"

text \<open>
  An operation that can throw returns the throwable (if any) with the state at the
  throw and the effects up to it.
\<close>

definition notifyController ::
  "UpdatesController \<Rightarrow> throwable option \<times> UpdatesController \<times> effect list"
where
  "notifyController s =
     (if launcher s = None
      then (Some (AssertionError ''notifyController was called with a null launcher''), s, [])
      else (None, s\<lparr>isLoaderTaskFinished := True\<rparr>, [Notify]))"

text \<open>
  \<open>start\<close>. On the last path the loader task is created and started; it runs on its
  own and reports back later through its callbacks, which are modelled below as
  operations of their own.
\<close>

definition start ::
  "Context \<Rightarrow> UpdatesController \<Rightarrow> throwable option \<times> UpdatesController \<times> effect list"
where
  "start context s =
     (if isStarted s then (None, s, [])
      else
        let s = s\<lparr>isStarted := True\<rparr> in
        if \<not> isEnabled (updatesConfiguration s) then
          notifyController (s\<lparr>launcher := Some (NoDatabaseLauncher context None)\<rparr>)
        else if updateUrl (updatesConfiguration s) = None
              \<or> scopeKey (updatesConfiguration s) = None then
          (Some (AssertionError ''expo-updates is enabled, but no valid URL is configured''),
           s, [])
        else if updatesDirectory s = None then
          notifyController
            (s\<lparr>launcher := Some (NoDatabaseLauncher context (updatesDirectoryException s)),
               isEmergencyLaunch := True\<rparr>)
        else
          (None,
           s\<lparr>databaseHandlerInitialized := True,
             errorRecoveryInitialized := True,
             database := ensureBuildDataIsConsistent context (updatesConfiguration s) (database s),
             loaderTask := Some \<lparr>taskConfiguration = updatesConfiguration s,
                                 taskDirectory = updatesDirectory s,
                                 taskSelectionPolicy = selectionPolicy s\<rparr>\<rparr>,
           [PurgeUpdatesLogs, AcquireDatabase, ReleaseDatabase, LoaderTaskStart]))"

subsection \<open>The loader task's terminal callbacks and the blocking getter\<close>

definition LoaderTaskCallback_onFailure ::
  "Context \<Rightarrow> exception \<Rightarrow> UpdatesController
     \<Rightarrow> throwable option \<times> UpdatesController \<times> effect list"
where
  "LoaderTaskCallback_onFailure context e s =
     (case notifyController
             (s\<lparr>launcher := Some (NoDatabaseLauncher context (Some e)),
                isEmergencyLaunch := True\<rparr>) of
        (t, s', effs) \<Rightarrow> (t, s', LoggerError e # effs))"

definition LoaderTaskCallback_onSuccess ::
  "Launcher \<Rightarrow> bool \<Rightarrow> UpdatesController
     \<Rightarrow> throwable option \<times> UpdatesController \<times> effect list"
where
  "LoaderTaskCallback_onSuccess l isUpToDate s =
     (let s = (if remoteLoadStatus s = NEW_UPDATE_LOADING \<and> isUpToDate
               then s\<lparr>remoteLoadStatus := IDLE\<rparr> else s)
      in notifyController (s\<lparr>launcher := Some l\<rparr>))"

text \<open>
  The other writers of the launcher. \<open>setLauncher\<close> is what the development
  launcher's \<open>reset\<close> (with null) and \<open>launchUpdate\<close> call.
\<close>

definition setLauncher :: "Launcher option \<Rightarrow> UpdatesController \<Rightarrow> UpdatesController" where
  "setLauncher l s = s\<lparr>launcher := l\<rparr>"

text \<open>
  \<open>relaunchReactApplication\<close>. Whether the weak reference to the host still holds it,
  and what \<open>DatabaseLauncher.launch\<close> reports (an exception, or success with the
  launcher as it then is), are parameters. Without a host the callback fails at once.
  Otherwise the state machine is handed \<open>Restart\<close>, the old launch asset file is read
  (\<open>launcher!!\<close>), the lease is taken and the new launcher is built on
  \<open>updatesDirectory!!\<close>. On failure the callback is told. On success the new
  launcher replaces the old one, the lease is released, the bundle loader is pointed
  to a new and different launch asset file, the callback is told, the React context is
  recreated, the reaper is run if asked for, and the state machine is reset. Neither
  path touches \<open>isEmergencyLaunch\<close> or \<open>isLoaderTaskFinished\<close>.
\<close>

definition relaunchReactApplication ::
  "bool \<Rightarrow> bool \<Rightarrow> exception + Launcher \<Rightarrow> UpdatesController
     \<Rightarrow> throwable option \<times> UpdatesController \<times> effect list"
where
  "relaunchReactApplication hostPresent shouldRunReaper launchOutcome s =
     (if \<not> hostPresent then
        (None, s, [RelaunchOnFailure ''Could not reload application''])
      else
        (case launcher s of
           None \<Rightarrow> (Some (NullPointerException ''launcher''), s, [ProcessEvent Restart])
         | Some oldLauncher \<Rightarrow>
             (case updatesDirectory s of
                None \<Rightarrow>
                  (Some (NullPointerException ''updatesDirectory''), s,
                   [ProcessEvent Restart, AcquireDatabase])
              | Some directory \<Rightarrow>
                  (case launchOutcome of
                     Inl e \<Rightarrow>
                       (None, s, [ProcessEvent Restart, AcquireDatabase, RelaunchOnFailure e])
                   | Inr newLauncher \<Rightarrow>
                       (None, s\<lparr>launcher := Some newLauncher\<rparr>,
                        [ProcessEvent Restart, AcquireDatabase, ReleaseDatabase] @
                        (case launchAssetFile newLauncher of
                           None \<Rightarrow> []
                         | Some newLaunchAssetFile \<Rightarrow>
                             if Some newLaunchAssetFile \<noteq> launchAssetFile oldLauncher
                             then [SetJSBundleLoader newLaunchAssetFile] else []) @
                        [RelaunchOnSuccess, RecreateReactContext] @
                        (if shouldRunReaper then [RunReaper] else []) @
                        [StateMachineReset])))))"

text \<open>
  What other threads can do to the controller while a thread waits in
  \<open>launchAssetFile\<close>: call \<open>start\<close>, deliver a terminal callback of the loader
  task, relaunch, set the launcher, or set the configuration (as the development
  launcher does). These are all the writers of the two fields the getter reads, the
  launcher and \<open>isLoaderTaskFinished\<close>, and of the configuration \<open>start\<close> decides
  on.
\<close>

datatype concurrent_call =
    StartCalled
  | LoaderTaskOnSuccess Launcher bool
  | LoaderTaskOnFailure exception
  | Relaunched bool bool "exception + Launcher"
  | SetLauncherCalled "Launcher option"
  | SetUpdatesConfigurationCalled UpdatesConfiguration

fun concurrent_run ::
  "Context \<Rightarrow> concurrent_call \<Rightarrow> UpdatesController
     \<Rightarrow> throwable option \<times> UpdatesController \<times> effect list"
where
  "concurrent_run context StartCalled s = start context s"
| "concurrent_run context (LoaderTaskOnSuccess l isUpToDate) s =
     LoaderTaskCallback_onSuccess l isUpToDate s"
| "concurrent_run context (LoaderTaskOnFailure e) s = LoaderTaskCallback_onFailure context e s"
| "concurrent_run context (Relaunched hostPresent shouldRunReaper launchOutcome) s =
     relaunchReactApplication hostPresent shouldRunReaper launchOutcome s"
| "concurrent_run context (SetLauncherCalled l) s = (None, setLauncher l s, [])"
| "concurrent_run context (SetUpdatesConfigurationCalled configuration) s =
     (None, s\<lparr>updatesConfiguration := configuration\<rparr>, [])"

fun concurrent_steps ::
  "Context \<Rightarrow> concurrent_call list \<Rightarrow> UpdatesController \<Rightarrow> UpdatesController"
where
  "concurrent_steps context [] s = s"
| "concurrent_steps context (c # cs) s =
     concurrent_steps context cs (fst (snd (concurrent_run context c s)))"

text \<open>
  \<open>launchAssetFile\<close> waits on the controller's monitor while
  \<open>isLoaderTaskFinished\<close> is false. Each return of \<open>wait()\<close> is one element of the
  list the getter is run against: it returns normally (after a notification, or for no
  reason) or with an \<open>InterruptedException\<close>, which is caught and logged, and it
  carries the calls other threads made on the controller since the waiter last held
  the monitor. After each the waiter tests the flag again. The getter returns the
  launcher's launch asset file, the state it returned in and the wake-ups it did not
  consume; \<open>None\<close> means that it is still waiting when the list ends.
\<close>

datatype wakeup =
    WaitReturned "concurrent_call list"
  | InterruptedException "concurrent_call list"

fun wakeup_step :: "Context \<Rightarrow> wakeup \<Rightarrow> UpdatesController \<Rightarrow> UpdatesController" where
  "wakeup_step context (WaitReturned cs) s = concurrent_steps context cs s"
| "wakeup_step context (InterruptedException cs) s = concurrent_steps context cs s"

fun wakeup_steps :: "Context \<Rightarrow> wakeup list \<Rightarrow> UpdatesController \<Rightarrow> UpdatesController" where
  "wakeup_steps context [] s = s"
| "wakeup_steps context (w # ws) s = wakeup_steps context ws (wakeup_step context w s)"

definition controller_launchAssetFile :: "UpdatesController \<Rightarrow> string option" where
  "controller_launchAssetFile s =
     (case launcher s of None \<Rightarrow> None | Some l \<Rightarrow> launchAssetFile l)"

fun get_launchAssetFile ::
  "Context \<Rightarrow> UpdatesController \<Rightarrow> wakeup list
     \<Rightarrow> (string option \<times> UpdatesController \<times> wakeup list) option"
where
  "get_launchAssetFile context s [] =
     (if \<not> isLoaderTaskFinished s then None
      else Some (controller_launchAssetFile s, s, []))"
| "get_launchAssetFile context s (w # ws) =
     (if \<not> isLoaderTaskFinished s then get_launchAssetFile context (wakeup_step context w s) ws
      else Some (controller_launchAssetFile s, s, w # ws))"

subsection \<open>Launch counters\<close>

text \<open>
  The two \<open>ErrorRecoveryDelegate\<close> methods. The block posted to the database handler
  is run at once: it reads the launched update when it runs, takes the lease, increments
  and releases.
\<close>

definition markFailedLaunchForLaunchedUpdate ::
  "UpdatesController \<Rightarrow> throwable option \<times> UpdatesController \<times> effect list"
where
  "markFailedLaunchForLaunchedUpdate s =
     (if isEmergencyLaunch s then (None, s, [])
      else if \<not> databaseHandlerInitialized s then
        (Some (UninitializedPropertyAccessException ''databaseHandler''), s, [])
      else
        (case controller_launchedUpdate s of
           None \<Rightarrow> (None, s, [])
         | Some u \<Rightarrow>
             (None, s\<lparr>database := incrementFailedLaunchCount (database s) u\<rparr>,
              [AcquireDatabase, ReleaseDatabase])))"

definition markSuccessfulLaunchForLaunchedUpdate ::
  "UpdatesController \<Rightarrow> throwable option \<times> UpdatesController \<times> effect list"
where
  "markSuccessfulLaunchForLaunchedUpdate s =
     (if isEmergencyLaunch s then (None, s, [])
      else if \<not> databaseHandlerInitialized s then
        (Some (UninitializedPropertyAccessException ''databaseHandler''), s, [])
      else
        (case controller_launchedUpdate s of
           None \<Rightarrow> (None, s, [])
         | Some u \<Rightarrow>
             (None, s\<lparr>database := incrementSuccessfulLaunchCount (database s) u\<rparr>,
              [AcquireDatabase, ReleaseDatabase])))"

datatype mark = MarkFailed | MarkSuccessful

fun mark_step :: "mark \<Rightarrow> UpdatesController \<Rightarrow> UpdatesController" where
  "mark_step MarkFailed s = fst (snd (markFailedLaunchForLaunchedUpdate s))"
| "mark_step MarkSuccessful s = fst (snd (markSuccessfulLaunchForLaunchedUpdate s))"

fun mark_steps :: "mark list \<Rightarrow> UpdatesController \<Rightarrow> UpdatesController" where
  "mark_steps [] s = s"
| "mark_steps (m # ms) s = mark_steps ms (mark_step m s)"

text \<open>
  What one call may do to a row: leave it as it is, or add one to the counter the
  call is about.
\<close>

fun row_step :: "mark \<Rightarrow> UpdateEntity \<Rightarrow> UpdateEntity \<Rightarrow> bool" where
  "row_step MarkFailed r r' =
     (r' = r \<or> r' = r\<lparr>failedLaunchCount := failedLaunchCount r + 1\<rparr>)"
| "row_step MarkSuccessful r r' =
     (r' = r \<or> r' = r\<lparr>successfulLaunchCount := successfulLaunchCount r + 1\<rparr>)"

text \<open>Row by row, the second table has the same ids and counters that are no smaller.\<close>

definition counters_not_decreased :: "UpdateEntity list \<Rightarrow> UpdateEntity list \<Rightarrow> bool" where
  "counters_not_decreased rs rs' =
     list_all2 (\<lambda>r r'. updateId r' = updateId r
                       \<and> failedLaunchCount r \<le> failedLaunchCount r'
                       \<and> successfulLaunchCount r \<le> successfulLaunchCount r') rs rs'"


subsection \<open>checkForUpdate\<close>

text \<open>
  The outcome of \<open>fileDownloader.downloadRemoteUpdate\<close>: one of the two methods of the
  download callback is invoked.
\<close>

datatype download_outcome =
    DownloadFailure string exception
  | DownloadSuccess UpdateResponse

text \<open>
  The part of \<open>onSuccess\<close> that decides on a manifest, reached when the response has
  no roll-back directive. With no manifest the callback is invoked and the event
  \<open>CheckCompleteUnavailable\<close> is constructed but not handed to the state machine. With
  a manifest and no launched update the update is reported as available. Otherwise
  the selection policy is asked, and an admitted update that is already stored is
  allowed only if its stored failure count is zero; the lookup takes and releases the
  lease.
\<close>

definition checkForUpdate_manifest ::
  "UpdatesController \<Rightarrow> UpdateResponse \<Rightarrow> effect list"
where
  "checkForUpdate_manifest s updateResponse =
     (case manifestUpdateResponsePart updateResponse of
        None \<Rightarrow> [CheckForUpdateCallback (NoUpdateAvailable NO_UPDATE_AVAILABLE_ON_SERVER)]
      | Some updateManifest \<Rightarrow>
          (case controller_launchedUpdate s of
             None \<Rightarrow>
               [CheckForUpdateCallback (UpdateAvailable updateManifest),
                ProcessEvent (CheckCompleteWithUpdate (rawJson updateManifest))]
           | Some launched \<Rightarrow>
               (let admitted = shouldLoadNewUpdate (selectionPolicy s)
                                 (updateEntity updateManifest) (Some launched)
                                 (manifestFilters updateResponse);
                    stored = (if admitted then
                                (case updateEntity updateManifest of
                                   None \<Rightarrow> None
                                 | Some entity \<Rightarrow> loadUpdateWithId (database s) (updateId entity))
                              else None);
                    lookup = (if admitted \<and> updateEntity updateManifest \<noteq> None
                              then [AcquireDatabase, ReleaseDatabase] else []);
                    shouldLaunch = (if admitted then
                                      (case stored of None \<Rightarrow> True
                                       | Some storedUpdateEntity \<Rightarrow>
                                           failedLaunchCount storedUpdateEntity = 0)
                                    else False);
                    failedPreviously = (case stored of None \<Rightarrow> False
                                        | Some storedUpdateEntity \<Rightarrow> \<not> shouldLaunch)
                in lookup @
                   (if shouldLaunch then
                      [CheckForUpdateCallback (UpdateAvailable updateManifest),
                       ProcessEvent (CheckCompleteWithUpdate (rawJson updateManifest))]
                    else
                      [CheckForUpdateCallback
                         (NoUpdateAvailable
                            (if failedPreviously then UPDATE_PREVIOUSLY_FAILED
                             else UPDATE_REJECTED_BY_SELECTION_POLICY)),
                       ProcessEvent CheckCompleteUnavailable]))))"

definition checkForUpdate_onSuccess ::
  "Context \<Rightarrow> UpdatesController \<Rightarrow> UpdateResponse \<Rightarrow> effect list"
where
  "checkForUpdate_onSuccess context s updateResponse =
     (case directiveUpdateResponsePart updateResponse of
        Some (RollBackToEmbeddedUpdateDirective directiveCommitTime) \<Rightarrow>
          (if \<not> hasEmbeddedUpdate (updatesConfiguration s) then
             [CheckForUpdateCallback (NoUpdateAvailable ROLLBACK_NO_EMBEDDED),
              ProcessEvent CheckCompleteUnavailable]
           else
             (case embeddedUpdate context (updatesConfiguration s) of
                None \<Rightarrow>
                  [CheckForUpdateCallback (NoUpdateAvailable ROLLBACK_NO_EMBEDDED),
                   ProcessEvent CheckCompleteUnavailable]
              | Some embedded \<Rightarrow>
                  (if \<not> shouldLoadRollBackToEmbeddedDirective (selectionPolicy s)
                          (RollBackToEmbeddedUpdateDirective directiveCommitTime) embedded
                          (controller_launchedUpdate s) (manifestFilters updateResponse)
                   then
                     [CheckForUpdateCallback
                        (NoUpdateAvailable ROLLBACK_REJECTED_BY_SELECTION_POLICY),
                      ProcessEvent CheckCompleteUnavailable]
                   else
                     [CheckForUpdateCallback (RollBackToEmbedded directiveCommitTime),
                      ProcessEvent (CheckCompleteWithRollback directiveCommitTime)])))
      | Some NoUpdateAvailableUpdateDirective \<Rightarrow> checkForUpdate_manifest s updateResponse
      | None \<Rightarrow> checkForUpdate_manifest s updateResponse)"

text \<open>
  \<open>checkForUpdate\<close>: the \<open>Check\<close> event first; then, on a worker, the request headers
  are read from the database under the lease, the request is made, and its outcome is
  handled. No field of the controller and no row of the database is written.
\<close>

definition checkForUpdate ::
  "Context \<Rightarrow> download_outcome \<Rightarrow> UpdatesController \<Rightarrow> UpdatesController \<times> effect list"
where
  "checkForUpdate context outcome s =
     (s, [ProcessEvent Check, AcquireDatabase, ReleaseDatabase, DownloadRemoteUpdate] @
         (case outcome of
            DownloadFailure message e \<Rightarrow>
              [ProcessEvent (CheckError message),
               CheckForUpdateCallback (ErrorResult e message)]
          | DownloadSuccess updateResponse \<Rightarrow>
              checkForUpdate_onSuccess context s updateResponse))"

text \<open>The four events that end a check.\<close>

fun is_terminal_event :: "UpdatesStateEvent \<Rightarrow> bool" where
  "is_terminal_event CheckCompleteUnavailable = True"
| "is_terminal_event (CheckCompleteWithUpdate m) = True"
| "is_terminal_event (CheckCompleteWithRollback t) = True"
| "is_terminal_event (CheckError m) = True"
| "is_terminal_event e = False"

text \<open>The results delivered to the callback, and the events handed to the state machine.\<close>

fun check_callbacks :: "effect list \<Rightarrow> CheckForUpdateResult list" where
  "check_callbacks [] = []"
| "check_callbacks (CheckForUpdateCallback r # effs) = r # check_callbacks effs"
| "check_callbacks (e # effs) = check_callbacks effs"

fun processed_events :: "effect list \<Rightarrow> UpdatesStateEvent list" where
  "processed_events [] = []"
| "processed_events (ProcessEvent ev # effs) = ev # processed_events effs"
| "processed_events (e # effs) = processed_events effs"

text \<open>
  A response with neither a roll-back directive nor a manifest: the path on which
  the terminal event is built and dropped.
\<close>

definition manifest_absent_path :: "download_outcome \<Rightarrow> bool" where
  "manifest_absent_path outcome =
     (case outcome of
        DownloadFailure message e \<Rightarrow> False
      | DownloadSuccess r \<Rightarrow>
          (case directiveUpdateResponsePart r of
             Some (RollBackToEmbeddedUpdateDirective t) \<Rightarrow> False
           | _ \<Rightarrow> manifestUpdateResponsePart r = None))"

text \<open>
  The three conditions under which a roll-back directive is followed: the
  configuration says there is an embedded update, the embedded manifest exists, and
  the selection policy admits the directive against the launched update and the
  response's manifest filters.
\<close>

definition rollback_admitted :: "Context \<Rightarrow> UpdatesController \<Rightarrow> UpdateResponse \<Rightarrow> nat \<Rightarrow> bool" where
  "rollback_admitted context s r t =
     (hasEmbeddedUpdate (updatesConfiguration s)
      \<and> (case embeddedUpdate context (updatesConfiguration s) of
            None \<Rightarrow> False
          | Some embedded \<Rightarrow>
              shouldLoadRollBackToEmbeddedDirective (selectionPolicy s)
                (RollBackToEmbeddedUpdateDirective t) embedded
                (controller_launchedUpdate s) (manifestFilters r)))"

subsection \<open>Extra parameters and the database lease\<close>

text \<open>
  The two callback interfaces. Each method is the caller's code: given its argument it
  returns (\<open>None\<close>) or throws.
\<close>

record GetExtraParamsCallback =
  getExtraParams_onFailure :: "exception \<Rightarrow> thrown option"
  getExtraParams_onSuccess :: "(string \<times> string) list \<Rightarrow> thrown option"

record SetExtraParamsCallback =
  setExtraParams_onFailure :: "exception \<Rightarrow> thrown option"
  setExtraParams_onSuccess :: "thrown option"

text \<open>
  \<open>getExtraParams\<close>. Inside \<open>try\<close>: the lease is taken as the first argument of the
  metadata operation is evaluated, the operation runs, the lease is released, the
  result is copied into a bundle and \<open>onSuccess\<close> is invoked. \<open>catch (e: Exception)\<close>
  covers all of that, also the call of \<open>onSuccess\<close>: it releases the lease and invokes
  \<open>onFailure\<close>. An \<open>Error\<close> is not caught and leaves the operation from where it was
  thrown, as does anything \<open>onFailure\<close> throws. The result is the throwable that
  leaves the operation (if any), the state and the effects.
\<close>

definition getExtraParams ::
  "Context \<Rightarrow> GetExtraParamsCallback \<Rightarrow> UpdatesController
     \<Rightarrow> thrown option \<times> UpdatesController \<times> effect list"
where
  "getExtraParams context callback s =
     (case ManifestMetadata_getExtraParams context (database s) (updatesConfiguration s) of
        Inl (Error m) \<Rightarrow> (Some (Error m), s, [AcquireDatabase])
      | Inl (Exception e) \<Rightarrow>
          (getExtraParams_onFailure callback e, s,
           [AcquireDatabase, ReleaseDatabase, GetExtraParamsOnFailure e])
      | Inr result \<Rightarrow>
          (let resultMap = (case result of None \<Rightarrow> [] | Some kvs \<Rightarrow> kvs) in
           case getExtraParams_onSuccess callback resultMap of
             None \<Rightarrow>
               (None, s, [AcquireDatabase, ReleaseDatabase, GetExtraParamsOnSuccess resultMap])
           | Some (Exception e) \<Rightarrow>
               (getExtraParams_onFailure callback e, s,
                [AcquireDatabase, ReleaseDatabase, GetExtraParamsOnSuccess resultMap,
                 ReleaseDatabase, GetExtraParamsOnFailure e])
           | Some (Error m) \<Rightarrow>
               (Some (Error m), s,
                [AcquireDatabase, ReleaseDatabase, GetExtraParamsOnSuccess resultMap])))"

text \<open>
  \<open>setExtraParam\<close> has the same shape. A metadata operation that throws leaves the
  database as it was.
\<close>

definition setExtraParam ::
  "Context \<Rightarrow> string \<Rightarrow> string option \<Rightarrow> SetExtraParamsCallback \<Rightarrow> UpdatesController
     \<Rightarrow> thrown option \<times> UpdatesController \<times> effect list"
where
  "setExtraParam context key val callback s =
     (case ManifestMetadata_setExtraParam context (database s) (updatesConfiguration s) key val of
        Inl (Error m) \<Rightarrow> (Some (Error m), s, [AcquireDatabase])
      | Inl (Exception e) \<Rightarrow>
          (setExtraParams_onFailure callback e, s,
           [AcquireDatabase, ReleaseDatabase, SetExtraParamsOnFailure e])
      | Inr db \<Rightarrow>
          (case setExtraParams_onSuccess callback of
             None \<Rightarrow>
               (None, s\<lparr>database := db\<rparr>,
                [AcquireDatabase, ReleaseDatabase, SetExtraParamsOnSuccess])
           | Some (Exception e) \<Rightarrow>
               (setExtraParams_onFailure callback e, s\<lparr>database := db\<rparr>,
                [AcquireDatabase, ReleaseDatabase, SetExtraParamsOnSuccess,
                 ReleaseDatabase, SetExtraParamsOnFailure e])
           | Some (Error m) \<Rightarrow>
               (Some (Error m), s\<lparr>database := db\<rparr>,
                [AcquireDatabase, ReleaseDatabase, SetExtraParamsOnSuccess])))"

fun is_extra_params_callback :: "effect \<Rightarrow> bool" where
  "is_extra_params_callback (GetExtraParamsOnSuccess b) = True"
| "is_extra_params_callback (GetExtraParamsOnFailure e) = True"
| "is_extra_params_callback SetExtraParamsOnSuccess = True"
| "is_extra_params_callback (SetExtraParamsOnFailure e) = True"
| "is_extra_params_callback e = False"

text \<open>
  Modelled from the spec: the class \<open>DatabaseHolder\<close> is not among the sources. The
  lease is either free or held; taking it when it is held, or releasing it when it is
  free, is a breach of the protocol. \<open>lease_after held effs\<close> runs the lease through
  an operation's effects and gives its final state, or \<open>None\<close> at a breach or when a
  callback of the extra-parameter operations is invoked while the lease is held. A
  final state \<open>Some True\<close> is a leak: the operation is over and the lease is held.
\<close>

fun lease_after :: "bool \<Rightarrow> effect list \<Rightarrow> bool option" where
  "lease_after held [] = Some held"
| "lease_after held (AcquireDatabase # effs) =
     (if held then None else lease_after True effs)"
| "lease_after held (ReleaseDatabase # effs) =
     (if held then lease_after False effs else None)"
| "lease_after held (e # effs) =
     (if is_extra_params_callback e \<and> held then None else lease_after held effs)"


subsection \<open>A concrete engine\<close>

text \<open>
  A small installation on which the theorems below are exercised: an embedded update
  committed at time 100, a stored update committed at 300 that has launched well, and
  a stored update committed at 350 whose only launch failed. The policy admits what
  is newer than the launched update, and the metadata operations read and write the
  key-value table.
\<close>

definition example_embedded :: UpdateEntity where
  "example_embedded =
     \<lparr>updateId = ''embedded'', commitTime = 100, manifest = ''{embedded}'',
      failedLaunchCount = 0, successfulLaunchCount = 0\<rparr>"

definition example_U2 :: UpdateEntity where
  "example_U2 =
     \<lparr>updateId = ''U2'', commitTime = 300, manifest = ''{U2}'',
      failedLaunchCount = 0, successfulLaunchCount = 1\<rparr>"

definition example_U3 :: UpdateEntity where
  "example_U3 =
     \<lparr>updateId = ''U3'', commitTime = 350, manifest = ''{U3}'',
      failedLaunchCount = 1, successfulLaunchCount = 0\<rparr>"

definition example_policy :: SelectionPolicy where
  "example_policy =
     \<lparr>shouldLoadNewUpdate =
        (\<lambda>candidate launched filters.
           case candidate of
             None \<Rightarrow> False
           | Some c \<Rightarrow> (case launched of None \<Rightarrow> True | Some l \<Rightarrow> commitTime l < commitTime c)),
      shouldLoadRollBackToEmbeddedDirective =
        (\<lambda>directive embedded launched filters.
           case directive of
             NoUpdateAvailableUpdateDirective \<Rightarrow> False
           | RollBackToEmbeddedUpdateDirective t \<Rightarrow>
               (case launched of None \<Rightarrow> True | Some l \<Rightarrow> commitTime l < t))\<rparr>"

definition example_database :: UpdatesDatabase where
  "example_database = \<lparr>updates = [example_U2, example_U3], jsonData = [(''channel'', ''main'')]\<rparr>"

definition example_context :: Context where
  "example_context =
     \<lparr>getOrCreateUpdatesDirectory = Inr ''/data/app/files/.expo-internal'',
      embeddedUpdate = (\<lambda>configuration. Some example_embedded),
      databaseInstance = example_database,
      createFilterAwarePolicy = (\<lambda>configuration. example_policy),
      ensureBuildDataIsConsistent = (\<lambda>configuration db. db),
      ManifestMetadata_getExtraParams = (\<lambda>db configuration. Inr (Some (jsonData db))),
      ManifestMetadata_setExtraParam =
        (\<lambda>db configuration key val.
           case val of
             None \<Rightarrow> Inr (db\<lparr>jsonData := filter (\<lambda>kv. fst kv \<noteq> key) (jsonData db)\<rparr>)
           | Some v \<Rightarrow>
               Inr (db\<lparr>jsonData := (key, v) # filter (\<lambda>kv. fst kv \<noteq> key) (jsonData db)\<rparr>))\<rparr>"

text \<open>The same installation with an updates directory that cannot be created.\<close>

definition example_context_no_directory :: Context where
  "example_context_no_directory =
     example_context\<lparr>getOrCreateUpdatesDirectory := Inl ''mkdir failed''\<rparr>"

text \<open>
  The same installation with a metadata table that cannot be read or written: the
  operations throw an \<open>Exception\<close>.
\<close>

definition example_context_broken_metadata :: Context where
  "example_context_broken_metadata =
     example_context
       \<lparr>ManifestMetadata_getExtraParams :=
          (\<lambda>db configuration. Inl (Exception ''no such table'')),
        ManifestMetadata_setExtraParam :=
          (\<lambda>db configuration key val. Inl (Exception ''no such table''))\<rparr>"

text \<open>The same installation with metadata operations that run out of memory.\<close>

definition example_context_metadata_error :: Context where
  "example_context_metadata_error =
     example_context
       \<lparr>ManifestMetadata_getExtraParams :=
          (\<lambda>db configuration. Inl (Error ''OutOfMemoryError'')),
        ManifestMetadata_setExtraParam :=
          (\<lambda>db configuration key val. Inl (Error ''OutOfMemoryError''))\<rparr>"

text \<open>
  Callbacks that return, and callbacks whose \<open>onSuccess\<close> throws an
  \<open>IllegalStateException\<close>.
\<close>

definition example_get_callback :: GetExtraParamsCallback where
  "example_get_callback =
     \<lparr>getExtraParams_onFailure = (\<lambda>e. None), getExtraParams_onSuccess = (\<lambda>b. None)\<rparr>"

definition example_get_callback_throwing :: GetExtraParamsCallback where
  "example_get_callback_throwing =
     \<lparr>getExtraParams_onFailure = (\<lambda>e. None),
      getExtraParams_onSuccess = (\<lambda>b. Some (Exception ''IllegalStateException''))\<rparr>"

definition example_set_callback :: SetExtraParamsCallback where
  "example_set_callback =
     \<lparr>setExtraParams_onFailure = (\<lambda>e. None), setExtraParams_onSuccess = None\<rparr>"

definition example_set_callback_throwing :: SetExtraParamsCallback where
  "example_set_callback_throwing =
     \<lparr>setExtraParams_onFailure = (\<lambda>e. None),
      setExtraParams_onSuccess = Some (Exception ''IllegalStateException'')\<rparr>"

definition example_configuration :: UpdatesConfiguration where
  "example_configuration =
     \<lparr>isEnabled = True, updateUrl = Some ''https://u.example.dev/app'',
      scopeKey = Some ''app'', hasEmbeddedUpdate = True\<rparr>"

definition example_launcher :: Launcher where
  "example_launcher =
     \<lparr>launchedUpdate = Some example_U2,
      launchAssetFile = Some ''/data/app/files/.expo-internal/u2-bundle'',
      localAssetFiles = Some [],
      isUsingEmbeddedAssets = False\<rparr>"

text \<open>
  The engine after \<open>start\<close>, and after the loader task has then reported the stored
  update U2 as the one to launch.
\<close>

definition example_started :: UpdatesController where
  "example_started =
     fst (snd (start example_context (UpdatesController example_context example_configuration)))"

definition example_launched :: UpdatesController where
  "example_launched =
     fst (snd (LoaderTaskCallback_onSuccess example_launcher True example_started))"

text \<open>The engine started with no updates directory: an emergency launch.\<close>

definition example_emergency :: UpdatesController where
  "example_emergency =
     fst (snd (start example_context_no_directory
                 (UpdatesController example_context_no_directory example_configuration)))"

text \<open>
  Three responses: the roll-back directive of time 400, the manifest of the stored
  update U3, and both together.
\<close>

definition example_manifest_U3 :: UpdateManifest where
  "example_manifest_U3 = \<lparr>updateEntity = Some example_U3, rawJson = ''{U3}''\<rparr>"

definition example_response_rollback :: UpdateResponse where
  "example_response_rollback =
     \<lparr>directiveUpdateResponsePart = Some (RollBackToEmbeddedUpdateDirective 400),
      manifestUpdateResponsePart = None, manifestFilters = None\<rparr>"

definition example_response_U3 :: UpdateResponse where
  "example_response_U3 =
     \<lparr>directiveUpdateResponsePart = None,
      manifestUpdateResponsePart = Some example_manifest_U3, manifestFilters = None\<rparr>"

definition example_response_rollback_U3 :: UpdateResponse where
  "example_response_rollback_U3 =
     \<lparr>directiveUpdateResponsePart = Some (RollBackToEmbeddedUpdateDirective 400),
      manifestUpdateResponsePart = Some example_manifest_U3, manifestFilters = None\<rparr>"

definition example_response_empty :: UpdateResponse where
  "example_response_empty =
     \<lparr>directiveUpdateResponsePart = None, manifestUpdateResponsePart = None,
      manifestFilters = None\<rparr>"

text \<open>The engine started with updates disabled.\<close>

definition example_configuration_disabled :: UpdatesConfiguration where
  "example_configuration_disabled = example_configuration\<lparr>isEnabled := False\<rparr>"

definition example_disabled :: UpdatesController where
  "example_disabled =
     fst (snd (start example_context
                 (UpdatesController example_context example_configuration_disabled)))"

text \<open>
  The engine whose loader task failed after \<open>start\<close> (an emergency launch), and the
  same engine after a later relaunch that succeeded with the stored update U2.
\<close>

definition example_failed :: UpdatesController where
  "example_failed =
     fst (snd (LoaderTaskCallback_onFailure example_context ''network unreachable''
                 example_started))"

definition example_relaunched :: UpdatesController where
  "example_relaunched =
     fst (snd (relaunchReactApplication True True (Inr example_launcher) example_failed))"

section \<open>Theorems\<close>

subsection \<open>Bind parameters\<close>

lemma normalizeParams_many:
  "length ps > 1 \<Longrightarrow> normalizeParams ps = \<lparr>params = JSArray ps, shouldPassAsObject = False\<rparr>"
  by (simp add: normalizeParams_def)

lemma normalizeParams_single:
  "normalizeParams [v] =
     (if typeof v \<noteq> ''object'' then \<lparr>params = JSArray [v], shouldPassAsObject = False\<rparr>
      else \<lparr>params = v, shouldPassAsObject = \<not> Array_isArray v\<rparr>)"
  by (simp add: normalizeParams_def)

lemma normalizeParams_empty:
  "normalizeParams [] = \<lparr>params = JSArray [JSUndefined], shouldPassAsObject = False\<rparr>"
  by (simp add: normalizeParams_def)

lemma normalizeParams_cases:
  "normalizeParams qs =
     (case qs of
        [] \<Rightarrow> \<lparr>params = JSArray [JSUndefined], shouldPassAsObject = False\<rparr>
      | [v] \<Rightarrow>
          (if Array_isArray v then \<lparr>params = v, shouldPassAsObject = False\<rparr>
           else if is_non_array_object v then \<lparr>params = v, shouldPassAsObject = True\<rparr>
           else if v = JSNull then \<lparr>params = JSNull, shouldPassAsObject = True\<rparr>
           else \<lparr>params = JSArray [v], shouldPassAsObject = False\<rparr>)
      | _ \<Rightarrow> \<lparr>params = JSArray qs, shouldPassAsObject = False\<rparr>)"
proof (cases qs)
  case Nil
  then show ?thesis by (simp add: normalizeParams_empty)
next
  case (Cons v vs)
  show ?thesis
  proof (cases vs)
    case Nil
    with Cons show ?thesis by (cases v) (simp_all add: normalizeParams_single)
  next
    case (Cons w ws)
    with \<open>qs = v # vs\<close> show ?thesis by (simp add: normalizeParams_many)
  qed
qed

lemma shouldPassAsObject_iff:
  "shouldPassAsObject (normalizeParams qs) = (single_non_array_object qs \<or> qs = [JSNull])"
proof (cases qs)
  case Nil
  then show ?thesis by (simp add: normalizeParams_empty single_non_array_object_def)
next
  case (Cons v vs)
  show ?thesis
  proof (cases vs)
    case Nil
    with Cons show ?thesis
      by (cases v) (simp_all add: normalizeParams_single single_non_array_object_def)
  next
    case (Cons w ws)
    with \<open>qs = v # vs\<close> show ?thesis
      by (simp add: normalizeParams_many single_non_array_object_def)
  qed
qed

text \<open>
  C10. What \<open>normalizeParams\<close> returns, for every argument list: with no argument the
  array holding \<open>undefined\<close>; with more than one argument, or a single array, that
  array, not passed as an object; with a single non-array object that object, passed
  as an object; with any other single value but \<open>null\<close> the one-element array
  holding it, not passed as an object. A single \<open>null\<close>, a scalar bind value, is not
  wrapped: it is returned as it is and passed as an object. So each of the eight
  run/get/all/each methods calls the object-binding native function when it is given
  a single non-array object and also when it is given a single \<open>null\<close>, and the
  array-binding one otherwise.
\<close>

theorem normalizeParams_null_passed_as_object:
  "normalizeParams qs =
     (case qs of
        [] \<Rightarrow> \<lparr>params = JSArray [JSUndefined], shouldPassAsObject = False\<rparr>
      | [v] \<Rightarrow>
          (if Array_isArray v then \<lparr>params = v, shouldPassAsObject = False\<rparr>
           else if is_non_array_object v then \<lparr>params = v, shouldPassAsObject = True\<rparr>
           else if v = JSNull then \<lparr>params = JSNull, shouldPassAsObject = True\<rparr>
           else \<lparr>params = JSArray [v], shouldPassAsObject = False\<rparr>)
      | _ \<Rightarrow> \<lparr>params = JSArray qs, shouldPassAsObject = False\<rparr>)
   \<and> is_object_binding (runAsync qs) = (single_non_array_object qs \<or> qs = [JSNull])
   \<and> is_object_binding (eachAsync qs) = (single_non_array_object qs \<or> qs = [JSNull])
   \<and> is_object_binding (getAsync qs) = (single_non_array_object qs \<or> qs = [JSNull])
   \<and> is_object_binding (allAsync qs) = (single_non_array_object qs \<or> qs = [JSNull])
   \<and> is_object_binding (runSync qs) = (single_non_array_object qs \<or> qs = [JSNull])
   \<and> is_object_binding (eachSync qs) = (single_non_array_object qs \<or> qs = [JSNull])
   \<and> is_object_binding (getSync qs) = (single_non_array_object qs \<or> qs = [JSNull])
   \<and> is_object_binding (allSync qs) = (single_non_array_object qs \<or> qs = [JSNull])
   \<and> normalizeParams [JSNull] = \<lparr>params = JSNull, shouldPassAsObject = True\<rparr>
   \<and> runAsync [JSNull] = ObjectRunAsync JSNull
   \<and> eachAsync [JSNull] = ObjectGetAsync JSNull
   \<and> getAsync [JSNull] = ObjectGetAsync JSNull
   \<and> allAsync [JSNull] = ObjectGetAllAsync JSNull
   \<and> runSync [JSNull] = ObjectRunSync JSNull
   \<and> eachSync [JSNull] = ObjectGetSync JSNull
   \<and> getSync [JSNull] = ObjectGetSync JSNull
   \<and> allSync [JSNull] = ObjectGetAllSync JSNull"
proof -
  have d: "is_object_binding (runAsync qs) = shouldPassAsObject (normalizeParams qs)"
    "is_object_binding (eachAsync qs) = shouldPassAsObject (normalizeParams qs)"
    "is_object_binding (getAsync qs) = shouldPassAsObject (normalizeParams qs)"
    "is_object_binding (allAsync qs) = shouldPassAsObject (normalizeParams qs)"
    "is_object_binding (runSync qs) = shouldPassAsObject (normalizeParams qs)"
    "is_object_binding (eachSync qs) = shouldPassAsObject (normalizeParams qs)"
    "is_object_binding (getSync qs) = shouldPassAsObject (normalizeParams qs)"
    "is_object_binding (allSync qs) = shouldPassAsObject (normalizeParams qs)"
    by (simp_all add: runAsync_def eachAsync_def getAsync_def allAsync_def
          runSync_def eachSync_def getSync_def allSync_def Let_def)
  have n: "normalizeParams [JSNull] = \<lparr>params = JSNull, shouldPassAsObject = True\<rparr>"
    by (simp add: normalizeParams_single)
  have m: "runAsync [JSNull] = ObjectRunAsync JSNull"
    "eachAsync [JSNull] = ObjectGetAsync JSNull"
    "getAsync [JSNull] = ObjectGetAsync JSNull"
    "allAsync [JSNull] = ObjectGetAllAsync JSNull"
    "runSync [JSNull] = ObjectRunSync JSNull"
    "eachSync [JSNull] = ObjectGetSync JSNull"
    "getSync [JSNull] = ObjectGetSync JSNull"
    "allSync [JSNull] = ObjectGetAllSync JSNull"
    by (simp_all add: runAsync_def eachAsync_def getAsync_def allAsync_def
          runSync_def eachSync_def getSync_def allSync_def n)
  show ?thesis
    using normalizeParams_cases [of qs] shouldPassAsObject_iff [of qs] d n m
    by simp
qed

subsection \<open>checkForUpdate\<close>

lemma check_callbacks_append:
  "check_callbacks (xs @ ys) = check_callbacks xs @ check_callbacks ys"
  by (induction xs rule: check_callbacks.induct) simp_all

lemma processed_events_append:
  "processed_events (xs @ ys) = processed_events xs @ processed_events ys"
  by (induction xs rule: processed_events.induct) simp_all

lemma checkForUpdate_effects_success:
  "snd (checkForUpdate ctx (DownloadSuccess r) s) =
     [ProcessEvent Check, AcquireDatabase, ReleaseDatabase, DownloadRemoteUpdate] @
     checkForUpdate_onSuccess ctx s r"
  by (simp add: checkForUpdate_def)

lemma manifest_callbacks:
  "\<exists>res. check_callbacks (checkForUpdate_manifest s r) = [res]"
  unfolding checkForUpdate_manifest_def Let_def
  by (simp add: check_callbacks_append split: option.splits)

lemma manifest_events:
  "if manifestUpdateResponsePart r = None
   then processed_events (checkForUpdate_manifest s r) = []
   else \<exists>t. is_terminal_event t \<and> processed_events (checkForUpdate_manifest s r) = [t]"
  unfolding checkForUpdate_manifest_def Let_def
  by (simp add: processed_events_append split: option.splits)

lemma onSuccess_callbacks:
  "\<exists>res. check_callbacks (checkForUpdate_onSuccess ctx s r) = [res]"
  unfolding checkForUpdate_onSuccess_def
  by (simp add: manifest_callbacks split: option.splits UpdateDirective.splits)

lemma onSuccess_events:
  "if manifest_absent_path (DownloadSuccess r)
   then processed_events (checkForUpdate_onSuccess ctx s r) = []
   else \<exists>t. is_terminal_event t \<and> processed_events (checkForUpdate_onSuccess ctx s r) = [t]"
  unfolding checkForUpdate_onSuccess_def manifest_absent_path_def
  using manifest_events [where s = s and r = r]
  by (auto split: option.splits UpdateDirective.splits)

text \<open>
  C2. Whatever the download reports, one \<open>checkForUpdate\<close> invocation delivers exactly
  one result to the callback, and the first event the state machine is handed is
  \<open>Check\<close>. On every path but one, exactly one terminal event follows it. The
  exception is a successful response with no roll-back directive and no manifest:
  there the state machine is handed \<open>Check\<close> and nothing else, because the
  \<open>CheckCompleteUnavailable\<close> event is built and not processed.
\<close>

theorem checkForUpdate_terminal_events:
  "(\<exists>res. check_callbacks (snd (checkForUpdate ctx outcome s)) = [res])
   \<and> (if manifest_absent_path outcome
        then processed_events (snd (checkForUpdate ctx outcome s)) = [Check]
        else \<exists>t. is_terminal_event t \<and>
               processed_events (snd (checkForUpdate ctx outcome s)) = [Check, t])"
proof (cases outcome)
  case (DownloadFailure message e)
  then show ?thesis
    by (simp add: checkForUpdate_def manifest_absent_path_def)
next
  case (DownloadSuccess r)
  have "check_callbacks (snd (checkForUpdate ctx outcome s)) =
          check_callbacks (checkForUpdate_onSuccess ctx s r)"
    using DownloadSuccess by (simp add: checkForUpdate_def)
  moreover have "processed_events (snd (checkForUpdate ctx outcome s)) =
          Check # processed_events (checkForUpdate_onSuccess ctx s r)"
    using DownloadSuccess by (simp add: checkForUpdate_def)
  ultimately show ?thesis
    using DownloadSuccess onSuccess_callbacks [of ctx s r]
      onSuccess_events [where ctx = ctx and s = s and r = r]
    by auto
qed

text \<open>The run on the response with no parts, effect by effect.\<close>

lemma manifest_absent_trace:
  "snd (checkForUpdate ctx (DownloadSuccess example_response_empty) s) =
     [ProcessEvent Check, AcquireDatabase, ReleaseDatabase, DownloadRemoteUpdate,
      CheckForUpdateCallback (NoUpdateAvailable NO_UPDATE_AVAILABLE_ON_SERVER)]"
  by (simp add: checkForUpdate_def checkForUpdate_onSuccess_def checkForUpdate_manifest_def
        example_response_empty_def)

lemma example_started_eq:
  "example_started =
     (UpdatesController example_context example_configuration)
       \<lparr>isStarted := True, databaseHandlerInitialized := True, errorRecoveryInitialized := True,
        loaderTask := Some \<lparr>taskConfiguration = example_configuration,
                            taskDirectory = Some ''/data/app/files/.expo-internal'',
                            taskSelectionPolicy = example_policy\<rparr>\<rparr>"
  by (simp add: example_started_def start_def UpdatesController_def example_context_def
        example_configuration_def selectionPolicy_def Let_def)

lemma example_launched_eq:
  "example_launched =
     example_started\<lparr>launcher := Some example_launcher, isLoaderTaskFinished := True\<rparr>"
  by (simp add: example_launched_def LoaderTaskCallback_onSuccess_def notifyController_def
       example_started_eq UpdatesController_def Let_def)

lemma example_launched_fields:
  "launcher example_launched = Some example_launcher"
  "database example_launched = example_database"
  "updatesConfiguration example_launched = example_configuration"
  "selectionPolicy example_launched = example_policy"
  "isEmergencyLaunch example_launched = False"
  "isLoaderTaskFinished example_launched = True"
  "databaseHandlerInitialized example_launched = True"
  "controller_launchedUpdate example_launched = Some example_U2"
  by (simp_all add: example_launched_eq example_started_eq UpdatesController_def
        example_context_def selectionPolicy_def controller_launchedUpdate_def example_launcher_def)

text \<open>
  C3. On a response whose directive is \<open>RollBackToEmbedded\<close> of commit time \<open>t\<close>, the
  callback receives \<open>RollBackToEmbedded t\<close> and the state machine processes
  \<open>CheckCompleteWithRollback t\<close> after \<open>Check\<close> if and only if the configuration has
  an embedded update, the embedded manifest exists and the selection policy admits
  the directive against the launched update and the response's manifest filters. In
  every other case the callback receives \<open>NoUpdateAvailable\<close> with a reason and the
  state machine processes \<open>CheckCompleteUnavailable\<close>.
\<close>

theorem checkForUpdate_rollback:
  assumes "directiveUpdateResponsePart r = Some (RollBackToEmbeddedUpdateDirective t)"
  shows "((check_callbacks (snd (checkForUpdate ctx (DownloadSuccess r) s)) = [RollBackToEmbedded t]
           \<and> processed_events (snd (checkForUpdate ctx (DownloadSuccess r) s)) =
               [Check, CheckCompleteWithRollback t])
          \<longleftrightarrow> rollback_admitted ctx s r t)
       \<and> (\<not> rollback_admitted ctx s r t \<longrightarrow>
            (\<exists>reason. check_callbacks (snd (checkForUpdate ctx (DownloadSuccess r) s)) =
                        [NoUpdateAvailable reason])
            \<and> processed_events (snd (checkForUpdate ctx (DownloadSuccess r) s)) =
                [Check, CheckCompleteUnavailable])"
  using assms
  by (simp add: checkForUpdate_effects_success checkForUpdate_onSuccess_def rollback_admitted_def
        split: option.splits)

theorem checkForUpdate_rollback_witness:
  "directiveUpdateResponsePart example_response_rollback = Some (RollBackToEmbeddedUpdateDirective 400)
   \<and> rollback_admitted example_context example_launched example_response_rollback 400
   \<and> check_callbacks (snd (checkForUpdate example_context
         (DownloadSuccess example_response_rollback) example_launched)) = [RollBackToEmbedded 400]
   \<and> processed_events (snd (checkForUpdate example_context
         (DownloadSuccess example_response_rollback) example_launched)) =
       [Check, CheckCompleteWithRollback 400]"
proof -
  have d: "directiveUpdateResponsePart example_response_rollback =
             Some (RollBackToEmbeddedUpdateDirective 400)"
    by (simp add: example_response_rollback_def)
  have a: "rollback_admitted example_context example_launched example_response_rollback 400"
    by (simp add: rollback_admitted_def example_launched_fields example_configuration_def
          example_context_def example_policy_def example_U2_def)
  show ?thesis
    using checkForUpdate_rollback [OF d, of example_context example_launched] d a by simp
qed

text \<open>
  C4. A response with neither a directive part nor a manifest part is treated as no
  update being available: the callback receives \<open>NoUpdateAvailable\<close> with reason
  \<open>NO_UPDATE_AVAILABLE_ON_SERVER\<close>, and the controller, its database and its launched
  update are what they were.
\<close>

theorem checkForUpdate_no_parts_no_update:
  assumes "directiveUpdateResponsePart r = None" and "manifestUpdateResponsePart r = None"
  shows "check_callbacks (snd (checkForUpdate ctx (DownloadSuccess r) s)) =
           [NoUpdateAvailable NO_UPDATE_AVAILABLE_ON_SERVER]
       \<and> fst (checkForUpdate ctx (DownloadSuccess r) s) = s
       \<and> database (fst (checkForUpdate ctx (DownloadSuccess r) s)) = database s
       \<and> controller_launchedUpdate (fst (checkForUpdate ctx (DownloadSuccess r) s)) =
           controller_launchedUpdate s"
  using assms
  by (simp add: checkForUpdate_def checkForUpdate_onSuccess_def checkForUpdate_manifest_def)

theorem checkForUpdate_no_parts_no_update_witness:
  "directiveUpdateResponsePart example_response_empty = None
   \<and> manifestUpdateResponsePart example_response_empty = None
   \<and> check_callbacks (snd (checkForUpdate example_context
         (DownloadSuccess example_response_empty) example_launched)) =
       [NoUpdateAvailable NO_UPDATE_AVAILABLE_ON_SERVER]
   \<and> database (fst (checkForUpdate example_context
         (DownloadSuccess example_response_empty) example_launched)) = example_database
   \<and> controller_launchedUpdate (fst (checkForUpdate example_context
         (DownloadSuccess example_response_empty) example_launched)) = Some example_U2"
proof -
  have d: "directiveUpdateResponsePart example_response_empty = None"
    and m: "manifestUpdateResponsePart example_response_empty = None"
    by (simp_all add: example_response_empty_def)
  show ?thesis
    using checkForUpdate_no_parts_no_update [OF d m, of example_context example_launched] d m
    by (simp add: example_launched_fields)
qed

lemma example_emergency_eq:
  "example_emergency =
     (UpdatesController example_context_no_directory example_configuration)
       \<lparr>isStarted := True,
        launcher := Some (NoDatabaseLauncher example_context_no_directory (Some ''mkdir failed'')),
        isEmergencyLaunch := True, isLoaderTaskFinished := True\<rparr>"
  by (simp add: example_emergency_def start_def UpdatesController_def example_context_def
        example_context_no_directory_def notifyController_def
        example_configuration_def selectionPolicy_def Let_def)

lemma example_emergency_fields:
  "database example_emergency = example_database"
  "updatesConfiguration example_emergency = example_configuration"
  "selectionPolicy example_emergency = example_policy"
  "isEmergencyLaunch example_emergency = True"
  "isLoaderTaskFinished example_emergency = True"
  "controller_launchedUpdate example_emergency = None"
  "controller_launchAssetFile example_emergency = None"
  by (simp_all add: example_emergency_eq UpdatesController_def example_context_no_directory_def
        example_context_def selectionPolicy_def controller_launchedUpdate_def
        controller_launchAssetFile_def NoDatabaseLauncher_def AppLauncherNoDatabase_init_def)

lemma example_lookup_U3:
  "loadUpdateWithId example_database ''U3'' = Some example_U3"
  by (simp add: loadUpdateWithId_def example_database_def example_U2_def example_U3_def)

lemma example_update_fields:
  "updateId example_U3 = ''U3''" "failedLaunchCount example_U3 = 1"
  "successfulLaunchCount example_U3 = 0" "commitTime example_U3 = 350"
  "updateId example_U2 = ''U2''" "commitTime example_U2 = 300"
  by (simp_all add: example_U3_def example_U2_def)

text \<open>
  C5 as stated fails. After an emergency launch no update is launched; the policy
  admits the manifest's update U3, which is stored with one failed and no successful
  launch, and \<open>checkForUpdate\<close> reports \<open>UpdateAvailable\<close>. And when the response
  carries a roll-back directive beside that manifest, the engine launched on U2 answers
  the directive and reports \<open>RollBackToEmbedded\<close>.
\<close>

theorem previously_failed_counterexample:
  "shouldLoadNewUpdate (selectionPolicy example_emergency) (Some example_U3)
     (controller_launchedUpdate example_emergency) (manifestFilters example_response_U3)
   \<and> loadUpdateWithId (database example_emergency) (updateId example_U3) = Some example_U3
   \<and> failedLaunchCount example_U3 = 1 \<and> successfulLaunchCount example_U3 = 0
   \<and> check_callbacks (snd (checkForUpdate example_context_no_directory
         (DownloadSuccess example_response_U3) example_emergency)) =
       [UpdateAvailable example_manifest_U3]
   \<and> shouldLoadNewUpdate (selectionPolicy example_launched) (Some example_U3)
       (controller_launchedUpdate example_launched) (manifestFilters example_response_rollback_U3)
   \<and> loadUpdateWithId (database example_launched) (updateId example_U3) = Some example_U3
   \<and> check_callbacks (snd (checkForUpdate example_context
         (DownloadSuccess example_response_rollback_U3) example_launched)) =
       [RollBackToEmbedded 400]"
proof -
  have 1: "check_callbacks (snd (checkForUpdate example_context_no_directory
         (DownloadSuccess example_response_U3) example_emergency)) =
       [UpdateAvailable example_manifest_U3]"
    by (simp add: checkForUpdate_effects_success checkForUpdate_onSuccess_def
          checkForUpdate_manifest_def example_response_U3_def example_emergency_fields)
  have 2: "check_callbacks (snd (checkForUpdate example_context
         (DownloadSuccess example_response_rollback_U3) example_launched)) =
       [RollBackToEmbedded 400]"
    by (simp add: checkForUpdate_effects_success checkForUpdate_onSuccess_def
          example_response_rollback_U3_def example_launched_fields example_configuration_def
          example_context_def example_policy_def example_update_fields)
  show ?thesis
    using 1 2
    by (simp add: example_emergency_fields example_launched_fields example_policy_def
          example_lookup_U3 example_update_fields)
qed

text \<open>
  C5, amended. Take a response with a manifest and no roll-back directive. If no
  update is launched, the manifest is reported as \<open>UpdateAvailable\<close>. If an update is
  launched and the selection policy admits the manifest's update through
  \<open>shouldLoadNewUpdate\<close>, then: when that update is stored in the catalog with a
  failed launch count of at least one, the callback receives \<open>NoUpdateAvailable\<close> with
  reason \<open>UPDATE_PREVIOUSLY_FAILED\<close>; when it is not stored, or stored with no failed
  launch, the callback receives \<open>UpdateAvailable\<close>.
\<close>

theorem checkForUpdate_previously_failed:
  assumes "manifestUpdateResponsePart r = Some m"
    and "\<forall>t. directiveUpdateResponsePart r \<noteq> Some (RollBackToEmbeddedUpdateDirective t)"
  shows "(controller_launchedUpdate s = None \<longrightarrow>
            check_callbacks (snd (checkForUpdate ctx (DownloadSuccess r) s)) = [UpdateAvailable m])
       \<and> (\<forall>launched entity.
            controller_launchedUpdate s = Some launched \<and> updateEntity m = Some entity
            \<and> shouldLoadNewUpdate (selectionPolicy s) (Some entity) (Some launched) (manifestFilters r)
            \<longrightarrow> check_callbacks (snd (checkForUpdate ctx (DownloadSuccess r) s)) =
                  [case loadUpdateWithId (database s) (updateId entity) of
                     None \<Rightarrow> UpdateAvailable m
                   | Some stored \<Rightarrow>
                       if 1 \<le> failedLaunchCount stored
                       then NoUpdateAvailable UPDATE_PREVIOUSLY_FAILED
                       else UpdateAvailable m])"
proof -
  have "checkForUpdate_onSuccess ctx s r = checkForUpdate_manifest s r"
    using assms(2) unfolding checkForUpdate_onSuccess_def
    by (simp split: option.splits UpdateDirective.splits)
  then show ?thesis
    using assms(1)
    by (auto simp add: checkForUpdate_effects_success checkForUpdate_manifest_def Let_def
          split: option.splits)
qed

theorem checkForUpdate_previously_failed_witness:
  "manifestUpdateResponsePart example_response_U3 = Some example_manifest_U3
   \<and> directiveUpdateResponsePart example_response_U3 = None
   \<and> controller_launchedUpdate example_launched = Some example_U2
   \<and> updateEntity example_manifest_U3 = Some example_U3
   \<and> shouldLoadNewUpdate (selectionPolicy example_launched) (Some example_U3) (Some example_U2)
        (manifestFilters example_response_U3)
   \<and> loadUpdateWithId (database example_launched) (updateId example_U3) = Some example_U3
   \<and> check_callbacks (snd (checkForUpdate example_context
         (DownloadSuccess example_response_U3) example_launched)) =
       [NoUpdateAvailable UPDATE_PREVIOUSLY_FAILED]
   \<and> controller_launchedUpdate example_emergency = None
   \<and> check_callbacks (snd (checkForUpdate example_context_no_directory
         (DownloadSuccess example_response_U3) example_emergency)) =
       [UpdateAvailable example_manifest_U3]"
proof -
  have m: "manifestUpdateResponsePart example_response_U3 = Some example_manifest_U3"
    and d: "\<forall>t. directiveUpdateResponsePart example_response_U3
                  \<noteq> Some (RollBackToEmbeddedUpdateDirective t)"
    by (simp_all add: example_response_U3_def)
  have e: "updateEntity example_manifest_U3 = Some example_U3"
    by (simp add: example_manifest_U3_def)
  have a: "shouldLoadNewUpdate (selectionPolicy example_launched) (Some example_U3)
             (Some example_U2) (manifestFilters example_response_U3)"
    by (simp add: example_launched_fields example_policy_def example_update_fields)
  have 1: "check_callbacks (snd (checkForUpdate example_context
         (DownloadSuccess example_response_U3) example_launched)) =
       [NoUpdateAvailable UPDATE_PREVIOUSLY_FAILED]"
    using checkForUpdate_previously_failed [OF m d, of example_launched example_context] e a
    by (simp add: example_launched_fields example_lookup_U3 example_update_fields)
  have 2: "check_callbacks (snd (checkForUpdate example_context_no_directory
         (DownloadSuccess example_response_U3) example_emergency)) =
       [UpdateAvailable example_manifest_U3]"
    using checkForUpdate_previously_failed
            [OF m d, of example_emergency example_context_no_directory]
    by (simp add: example_emergency_fields)
  show ?thesis
    using 1 2 m e a
    by (simp add: example_launched_fields example_emergency_fields example_lookup_U3
          example_update_fields example_response_U3_def)
qed

subsection \<open>start\<close>

lemma notifyController_isStarted:
  "isStarted (fst (snd (notifyController s))) = isStarted s"
  by (simp add: notifyController_def)

lemma start_sets_isStarted: "isStarted (fst (snd (start ctx s)))"
  by (simp add: start_def Let_def notifyController_isStarted)

lemma start_when_started: "isStarted s \<Longrightarrow> start ctx s = (None, s, [])"
  by (simp add: start_def)

text \<open>
  C6. \<open>start\<close> leaves the engine marked as started, and on every engine state so
  marked a call to \<open>start\<close> returns at once, without a throwable, with the state as it
  was (launcher, configuration, loader task, emergency flag and every other field) and
  with no effect: no loader task is started and no event reaches the state machine.
\<close>

theorem start_idempotent:
  "(isStarted s \<longrightarrow> start ctx s = (None, s, []))
   \<and> isStarted (fst (snd (start ctx s)))
   \<and> start ctx' (fst (snd (start ctx s))) = (None, fst (snd (start ctx s)), [])"
  using start_sets_isStarted [of ctx s] start_when_started [of "fst (snd (start ctx s))" ctx']
    start_when_started [of s ctx]
  by simp

theorem start_idempotent_witness:
  "isStarted example_started
   \<and> start example_context example_started = (None, example_started, [])
   \<and> snd (snd (start example_context (UpdatesController example_context example_configuration))) =
       [PurgeUpdatesLogs, AcquireDatabase, ReleaseDatabase, LoaderTaskStart]"
proof -
  have s: "isStarted example_started"
    by (simp add: example_started_eq)
  have e: "snd (snd (start example_context
                       (UpdatesController example_context example_configuration))) =
       [PurgeUpdatesLogs, AcquireDatabase, ReleaseDatabase, LoaderTaskStart]"
    by (simp add: start_def UpdatesController_def example_context_def
        example_configuration_def Let_def)
  show ?thesis
    using start_idempotent [of example_started example_context example_context] s e by simp
qed

lemma launchUpdate_keeps_map:
  "launchUpdate m u l = Inr l' \<Longrightarrow> nd_assetFilesMap l' = nd_assetFilesMap l"
  by (auto simp add: launchUpdate_def Let_def split: if_splits)

lemma launchUpdate_succeeds:
  "nd_assetFilesMap l = None \<Longrightarrow> \<exists>l'. launchUpdate m u l = Inr l'"
  by (simp add: launchUpdate_def Let_def)

lemma launchUpdates_embedded:
  "nd_assetFilesMap l = None \<Longrightarrow>
     \<exists>l'. launchUpdates cs l = Inr l' \<and> AppLauncherNoDatabase_isUsingEmbeddedAssets l'"
proof (induction cs arbitrary: l)
  case Nil
  then show ?case by (simp add: AppLauncherNoDatabase_isUsingEmbeddedAssets_def)
next
  case (Cons c cs)
  obtain m u where c: "c = (m, u)" by (cases c)
  from Cons.prems obtain l1 where l1: "launchUpdate m u l = Inr l1"
    using launchUpdate_succeeds by blast
  then have "nd_assetFilesMap l1 = None"
    using Cons.prems launchUpdate_keeps_map by fastforce
  from Cons.IH [OF this] show ?case using c l1 by simp
qed

lemma get_launchAssetFile_finished:
  "isLoaderTaskFinished s \<Longrightarrow>
     get_launchAssetFile ctx s ws = Some (controller_launchAssetFile s, s, ws)"
  by (cases ws) simp_all

text \<open>
  C7. When \<open>start\<close> runs on an engine that has not been started, whose updates
  directory is null, with updates enabled and an update URL and scope key configured,
  it throws nothing: it sets the emergency flag, installs the no-database launcher
  built with the directory exception, and signals that the loader task is finished,
  and that is all it does. A call of \<open>launchAssetFile\<close> then returns at once, with
  null, so the host falls back to the embedded bundle; the database is not read or
  written and no loader task is created. The controller reports that embedded assets
  are in use, and a no-database launcher reports so after any number of
  \<open>launchUpdate\<close> calls, none of which fails its precondition. The constructor leaves
  the directory null exactly by catching the exception of creating it.
\<close>

theorem start_directory_unavailable:
  assumes "\<not> isStarted s" and "updatesDirectory s = None"
    and "isEnabled (updatesConfiguration s)"
    and "updateUrl (updatesConfiguration s) \<noteq> None"
    and "scopeKey (updatesConfiguration s) \<noteq> None"
  shows "fst (start ctx s) = None
       \<and> snd (snd (start ctx s)) = [Notify]
       \<and> isEmergencyLaunch (fst (snd (start ctx s)))
       \<and> launcher (fst (snd (start ctx s))) =
           Some (NoDatabaseLauncher ctx (updatesDirectoryException s))
       \<and> isLoaderTaskFinished (fst (snd (start ctx s)))
       \<and> get_launchAssetFile ctx (fst (snd (start ctx s))) ws =
           Some (None, fst (snd (start ctx s)), ws)
       \<and> database (fst (snd (start ctx s))) = database s
       \<and> loaderTask (fst (snd (start ctx s))) = loaderTask s
       \<and> controller_isUsingEmbeddedAssets (fst (snd (start ctx s)))
       \<and> (\<forall>cs. \<exists>l. launchUpdates cs AppLauncherNoDatabase_init = Inr l
                  \<and> AppLauncherNoDatabase_isUsingEmbeddedAssets l)
       \<and> (\<forall>e cfg. getOrCreateUpdatesDirectory ctx = Inl e \<longrightarrow>
             updatesDirectory (UpdatesController ctx cfg) = None
             \<and> updatesDirectoryException (UpdatesController ctx cfg) = Some e
             \<and> \<not> isStarted (UpdatesController ctx cfg))"
proof -
  have st: "start ctx s =
      (None,
       s\<lparr>isStarted := True,
         launcher := Some (NoDatabaseLauncher ctx (updatesDirectoryException s)),
         isEmergencyLaunch := True, isLoaderTaskFinished := True\<rparr>, [Notify])"
    using assms by (simp add: start_def Let_def notifyController_def)
  have emb: "\<forall>cs. \<exists>l. launchUpdates cs AppLauncherNoDatabase_init = Inr l
                  \<and> AppLauncherNoDatabase_isUsingEmbeddedAssets l"
    using launchUpdates_embedded [of AppLauncherNoDatabase_init]
    by (simp add: AppLauncherNoDatabase_init_def)
  have ctor: "\<forall>e cfg. getOrCreateUpdatesDirectory ctx = Inl e \<longrightarrow>
             updatesDirectory (UpdatesController ctx cfg) = None
             \<and> updatesDirectoryException (UpdatesController ctx cfg) = Some e
             \<and> \<not> isStarted (UpdatesController ctx cfg)"
    by (simp add: UpdatesController_def)
  have fin: "isLoaderTaskFinished (fst (snd (start ctx s)))" by (simp add: st)
  have g: "get_launchAssetFile ctx (fst (snd (start ctx s))) ws =
           Some (None, fst (snd (start ctx s)), ws)"
    using get_launchAssetFile_finished [OF fin, of ctx ws]
    by (simp add: st controller_launchAssetFile_def NoDatabaseLauncher_def
          AppLauncherNoDatabase_init_def)
  have u: "controller_isUsingEmbeddedAssets (fst (snd (start ctx s)))"
    by (simp add: st controller_isUsingEmbeddedAssets_def NoDatabaseLauncher_def
          AppLauncherNoDatabase_init_def AppLauncherNoDatabase_isUsingEmbeddedAssets_def)
  show ?thesis
    using emb ctor g u by (simp add: st)
qed

theorem start_directory_unavailable_witness:
  "getOrCreateUpdatesDirectory example_context_no_directory = Inl ''mkdir failed''
   \<and> \<not> isStarted (UpdatesController example_context_no_directory example_configuration)
   \<and> updatesDirectory (UpdatesController example_context_no_directory example_configuration) = None
   \<and> isEnabled example_configuration
   \<and> updateUrl example_configuration \<noteq> None
   \<and> scopeKey example_configuration \<noteq> None
   \<and> fst (start example_context_no_directory
            (UpdatesController example_context_no_directory example_configuration)) = None
   \<and> isEmergencyLaunch example_emergency
   \<and> get_launchAssetFile example_context_no_directory example_emergency [] =
       Some (None, example_emergency, [])
   \<and> database example_emergency = example_database
   \<and> controller_isUsingEmbeddedAssets example_emergency"
proof -
  let ?s = "UpdatesController example_context_no_directory example_configuration"
  have 1: "\<not> isStarted ?s" and 2: "updatesDirectory ?s = None"
    and 3: "isEnabled (updatesConfiguration ?s)"
    and 4: "updateUrl (updatesConfiguration ?s) \<noteq> None"
    and 5: "scopeKey (updatesConfiguration ?s) \<noteq> None"
    by (simp_all add: UpdatesController_def example_context_no_directory_def
          example_configuration_def)
  have 6: "getOrCreateUpdatesDirectory example_context_no_directory = Inl ''mkdir failed''"
    by (simp add: example_context_no_directory_def)
  have 7: "isEnabled example_configuration \<and> updateUrl example_configuration \<noteq> None
           \<and> scopeKey example_configuration \<noteq> None"
    by (simp add: example_configuration_def)
  show ?thesis
    using start_directory_unavailable [OF 1 2 3 4 5, of example_context_no_directory "[]"]
      1 2 6 7
    by (simp add: example_emergency_def example_emergency_fields [unfolded example_emergency_def])
qed

subsection \<open>Extra parameters\<close>

lemma getExtraParams_paths:
  "(\<forall>res. ManifestMetadata_getExtraParams ctx (database s) (updatesConfiguration s) = Inr res
           \<and> getExtraParams_onSuccess cb (case res of None \<Rightarrow> [] | Some kvs \<Rightarrow> kvs) = None
      \<longrightarrow> getExtraParams ctx cb s =
            (None, s, [AcquireDatabase, ReleaseDatabase,
                       GetExtraParamsOnSuccess (case res of None \<Rightarrow> [] | Some kvs \<Rightarrow> kvs)])
          \<and> lease_after False (snd (snd (getExtraParams ctx cb s))) = Some False)
   \<and> (\<forall>e. ManifestMetadata_getExtraParams ctx (database s) (updatesConfiguration s)
             = Inl (Exception e)
      \<longrightarrow> snd (snd (getExtraParams ctx cb s)) =
            [AcquireDatabase, ReleaseDatabase, GetExtraParamsOnFailure e]
          \<and> lease_after False (snd (snd (getExtraParams ctx cb s))) = Some False)
   \<and> (\<forall>m. ManifestMetadata_getExtraParams ctx (database s) (updatesConfiguration s)
             = Inl (Error m)
      \<longrightarrow> getExtraParams ctx cb s = (Some (Error m), s, [AcquireDatabase])
          \<and> lease_after False (snd (snd (getExtraParams ctx cb s))) = Some True)
   \<and> (\<forall>res e. ManifestMetadata_getExtraParams ctx (database s) (updatesConfiguration s) = Inr res
           \<and> getExtraParams_onSuccess cb (case res of None \<Rightarrow> [] | Some kvs \<Rightarrow> kvs)
               = Some (Exception e)
      \<longrightarrow> snd (snd (getExtraParams ctx cb s)) =
            [AcquireDatabase, ReleaseDatabase,
             GetExtraParamsOnSuccess (case res of None \<Rightarrow> [] | Some kvs \<Rightarrow> kvs),
             ReleaseDatabase, GetExtraParamsOnFailure e]
          \<and> lease_after False (snd (snd (getExtraParams ctx cb s))) = None)"
  by (simp add: getExtraParams_def Let_def)

lemma setExtraParam_paths:
  "(\<forall>db. ManifestMetadata_setExtraParam ctx (database s) (updatesConfiguration s) k v = Inr db
           \<and> setExtraParams_onSuccess cb' = None
      \<longrightarrow> setExtraParam ctx k v cb' s =
            (None, s\<lparr>database := db\<rparr>,
             [AcquireDatabase, ReleaseDatabase, SetExtraParamsOnSuccess])
          \<and> lease_after False (snd (snd (setExtraParam ctx k v cb' s))) = Some False)
   \<and> (\<forall>e. ManifestMetadata_setExtraParam ctx (database s) (updatesConfiguration s) k v
             = Inl (Exception e)
      \<longrightarrow> snd (snd (setExtraParam ctx k v cb' s)) =
            [AcquireDatabase, ReleaseDatabase, SetExtraParamsOnFailure e]
          \<and> lease_after False (snd (snd (setExtraParam ctx k v cb' s))) = Some False)
   \<and> (\<forall>m. ManifestMetadata_setExtraParam ctx (database s) (updatesConfiguration s) k v
             = Inl (Error m)
      \<longrightarrow> setExtraParam ctx k v cb' s = (Some (Error m), s, [AcquireDatabase])
          \<and> lease_after False (snd (snd (setExtraParam ctx k v cb' s))) = Some True)
   \<and> (\<forall>db e. ManifestMetadata_setExtraParam ctx (database s) (updatesConfiguration s) k v = Inr db
           \<and> setExtraParams_onSuccess cb' = Some (Exception e)
      \<longrightarrow> snd (snd (setExtraParam ctx k v cb' s)) =
            [AcquireDatabase, ReleaseDatabase, SetExtraParamsOnSuccess,
             ReleaseDatabase, SetExtraParamsOnFailure e]
          \<and> lease_after False (snd (snd (setExtraParam ctx k v cb' s))) = None)"
  by (simp add: setExtraParam_def)

text \<open>
  C8. \<open>getExtraParams\<close> and \<open>setExtraParam\<close>, exit path by exit path. When the
  metadata operation returns and \<open>onSuccess\<close> returns, and when the metadata operation
  throws an \<open>Exception\<close>, the lease is taken, released once, and then the callback is
  invoked; the lease ends free. Two paths break this. When the metadata operation
  throws an \<open>Error\<close>, the \<open>catch\<close> clause does not apply: the operation ends with
  the lease taken and never released, and no callback is invoked. When the metadata
  operation returns and \<open>onSuccess\<close> throws an \<open>Exception\<close>, the \<open>catch\<close> clause
  releases the lease a second time, when it is free, and invokes \<open>onFailure\<close> as well.
\<close>

theorem extra_params_lease_paths:
  "((\<forall>res. ManifestMetadata_getExtraParams ctx (database s) (updatesConfiguration s) = Inr res
           \<and> getExtraParams_onSuccess cb (case res of None \<Rightarrow> [] | Some kvs \<Rightarrow> kvs) = None
      \<longrightarrow> getExtraParams ctx cb s =
            (None, s, [AcquireDatabase, ReleaseDatabase,
                       GetExtraParamsOnSuccess (case res of None \<Rightarrow> [] | Some kvs \<Rightarrow> kvs)])
          \<and> lease_after False (snd (snd (getExtraParams ctx cb s))) = Some False)
   \<and> (\<forall>e. ManifestMetadata_getExtraParams ctx (database s) (updatesConfiguration s)
             = Inl (Exception e)
      \<longrightarrow> snd (snd (getExtraParams ctx cb s)) =
            [AcquireDatabase, ReleaseDatabase, GetExtraParamsOnFailure e]
          \<and> lease_after False (snd (snd (getExtraParams ctx cb s))) = Some False)
   \<and> (\<forall>m. ManifestMetadata_getExtraParams ctx (database s) (updatesConfiguration s)
             = Inl (Error m)
      \<longrightarrow> getExtraParams ctx cb s = (Some (Error m), s, [AcquireDatabase])
          \<and> lease_after False (snd (snd (getExtraParams ctx cb s))) = Some True)
   \<and> (\<forall>res e. ManifestMetadata_getExtraParams ctx (database s) (updatesConfiguration s) = Inr res
           \<and> getExtraParams_onSuccess cb (case res of None \<Rightarrow> [] | Some kvs \<Rightarrow> kvs)
               = Some (Exception e)
      \<longrightarrow> snd (snd (getExtraParams ctx cb s)) =
            [AcquireDatabase, ReleaseDatabase,
             GetExtraParamsOnSuccess (case res of None \<Rightarrow> [] | Some kvs \<Rightarrow> kvs),
             ReleaseDatabase, GetExtraParamsOnFailure e]
          \<and> lease_after False (snd (snd (getExtraParams ctx cb s))) = None))
   \<and> ((\<forall>db. ManifestMetadata_setExtraParam ctx (database s) (updatesConfiguration s) k v = Inr db
           \<and> setExtraParams_onSuccess cb' = None
      \<longrightarrow> setExtraParam ctx k v cb' s =
            (None, s\<lparr>database := db\<rparr>,
             [AcquireDatabase, ReleaseDatabase, SetExtraParamsOnSuccess])
          \<and> lease_after False (snd (snd (setExtraParam ctx k v cb' s))) = Some False)
   \<and> (\<forall>e. ManifestMetadata_setExtraParam ctx (database s) (updatesConfiguration s) k v
             = Inl (Exception e)
      \<longrightarrow> snd (snd (setExtraParam ctx k v cb' s)) =
            [AcquireDatabase, ReleaseDatabase, SetExtraParamsOnFailure e]
          \<and> lease_after False (snd (snd (setExtraParam ctx k v cb' s))) = Some False)
   \<and> (\<forall>m. ManifestMetadata_setExtraParam ctx (database s) (updatesConfiguration s) k v
             = Inl (Error m)
      \<longrightarrow> setExtraParam ctx k v cb' s = (Some (Error m), s, [AcquireDatabase])
          \<and> lease_after False (snd (snd (setExtraParam ctx k v cb' s))) = Some True)
   \<and> (\<forall>db e. ManifestMetadata_setExtraParam ctx (database s) (updatesConfiguration s) k v = Inr db
           \<and> setExtraParams_onSuccess cb' = Some (Exception e)
      \<longrightarrow> snd (snd (setExtraParam ctx k v cb' s)) =
            [AcquireDatabase, ReleaseDatabase, SetExtraParamsOnSuccess,
             ReleaseDatabase, SetExtraParamsOnFailure e]
          \<and> lease_after False (snd (snd (setExtraParam ctx k v cb' s))) = None))"
  using getExtraParams_paths [of ctx s cb] setExtraParam_paths [of ctx s k v cb']
  by blast

theorem extra_params_lease_paths_witness:
  "getExtraParams example_context example_get_callback example_launched =
     (None, example_launched,
      [AcquireDatabase, ReleaseDatabase, GetExtraParamsOnSuccess [(''channel'', ''main'')]])
   \<and> snd (snd (getExtraParams example_context_broken_metadata example_get_callback
                  example_launched)) =
       [AcquireDatabase, ReleaseDatabase, GetExtraParamsOnFailure ''no such table'']
   \<and> getExtraParams example_context_metadata_error example_get_callback example_launched =
       (Some (Error ''OutOfMemoryError''), example_launched, [AcquireDatabase])
   \<and> lease_after False
        (snd (snd (getExtraParams example_context_metadata_error example_get_callback
                     example_launched))) = Some True
   \<and> snd (snd (getExtraParams example_context example_get_callback_throwing example_launched)) =
       [AcquireDatabase, ReleaseDatabase, GetExtraParamsOnSuccess [(''channel'', ''main'')],
        ReleaseDatabase, GetExtraParamsOnFailure ''IllegalStateException'']
   \<and> lease_after False
        (snd (snd (getExtraParams example_context example_get_callback_throwing
                     example_launched))) = None
   \<and> setExtraParam example_context_metadata_error ''channel'' (Some ''beta'')
        example_set_callback example_launched =
       (Some (Error ''OutOfMemoryError''), example_launched, [AcquireDatabase])
   \<and> snd (snd (setExtraParam example_context ''channel'' (Some ''beta'')
                  example_set_callback_throwing example_launched)) =
       [AcquireDatabase, ReleaseDatabase, SetExtraParamsOnSuccess,
        ReleaseDatabase, SetExtraParamsOnFailure ''IllegalStateException'']"
  using extra_params_lease_paths
          [of example_context example_launched example_get_callback
              "''channel''" "Some ''beta''" example_set_callback]
        extra_params_lease_paths
          [of example_context_broken_metadata example_launched example_get_callback
              "''channel''" "Some ''beta''" example_set_callback]
        extra_params_lease_paths
          [of example_context_metadata_error example_launched example_get_callback
              "''channel''" "Some ''beta''" example_set_callback]
        extra_params_lease_paths
          [of example_context example_launched example_get_callback_throwing
              "''channel''" "Some ''beta''" example_set_callback_throwing]
  by (simp add: example_launched_fields example_context_def example_context_broken_metadata_def
        example_context_metadata_error_def example_database_def
        example_get_callback_def example_get_callback_throwing_def
        example_set_callback_def example_set_callback_throwing_def)

subsection \<open>Launch counters\<close>

lemma counters_refl: "counters_not_decreased rs rs"
  by (simp add: counters_not_decreased_def list_all2_same)

lemma counters_trans:
  assumes "counters_not_decreased a b" and "counters_not_decreased b c"
  shows "counters_not_decreased a c"
  using assms unfolding counters_not_decreased_def
  by (rule list_all2_trans [rotated]) auto

lemma row_step_failed:
  "list_all2 (row_step MarkFailed) rs
     (map (\<lambda>r. if updateId r = i then r\<lparr>failedLaunchCount := failedLaunchCount r + 1\<rparr> else r) rs)"
  by (induction rs) simp_all

lemma row_step_successful:
  "list_all2 (row_step MarkSuccessful) rs
     (map (\<lambda>r. if updateId r = i then r\<lparr>successfulLaunchCount := successfulLaunchCount r + 1\<rparr>
                else r) rs)"
  by (induction rs) simp_all

lemma mark_step_rows:
  "list_all2 (row_step m) (updates (database s)) (updates (database (mark_step m s)))"
proof (cases m)
  case MarkFailed
  then show ?thesis
    using row_step_failed
    by (auto simp add: markFailedLaunchForLaunchedUpdate_def incrementFailedLaunchCount_def
          list_all2_same split: option.splits)
next
  case MarkSuccessful
  then show ?thesis
    using row_step_successful
    by (auto simp add: markSuccessfulLaunchForLaunchedUpdate_def incrementSuccessfulLaunchCount_def
          list_all2_same split: option.splits)
qed

lemma row_step_counters:
  "list_all2 (row_step m) rs rs' \<Longrightarrow> counters_not_decreased rs rs'"
  unfolding counters_not_decreased_def
  by (erule list_all2_mono) (cases m; auto)

lemma mark_steps_counters:
  "counters_not_decreased (updates (database s)) (updates (database (mark_steps ms s)))"
proof (induction ms arbitrary: s)
  case Nil
  show ?case by (simp add: counters_refl)
next
  case (Cons m ms)
  have "counters_not_decreased (updates (database s)) (updates (database (mark_step m s)))"
    using mark_step_rows row_step_counters by blast
  with Cons.IH [of "mark_step m s"] show ?case
    by (auto intro: counters_trans)
qed

lemma mark_step_keeps:
  "isEmergencyLaunch (mark_step m s) = isEmergencyLaunch s"
  "launcher (mark_step m s) = launcher s"
  "jsonData (database (mark_step m s)) = jsonData (database s)"
  by (cases m; simp add: markFailedLaunchForLaunchedUpdate_def
        markSuccessfulLaunchForLaunchedUpdate_def incrementFailedLaunchCount_def
        incrementSuccessfulLaunchCount_def split: option.splits)+

lemma mark_step_inert:
  "isEmergencyLaunch s \<or> controller_launchedUpdate s = None \<Longrightarrow> mark_step m s = s"
  by (cases m; auto simp add: markFailedLaunchForLaunchedUpdate_def
        markSuccessfulLaunchForLaunchedUpdate_def)

lemma mark_steps_inert:
  "isEmergencyLaunch s \<or> controller_launchedUpdate s = None \<Longrightarrow> mark_steps ms s = s"
  by (induction ms) (simp_all add: mark_step_inert)

text \<open>
  C9. Over any sequence of \<open>markFailedLaunchForLaunchedUpdate\<close> and
  \<open>markSuccessfulLaunchForLaunchedUpdate\<close> calls, every row of the update table keeps
  its id and its two counters do not decrease; a single call leaves a row as it is or
  adds one to the counter the call is about. When the emergency flag is set or no
  update is launched, the calls leave the database as it is and do not take the lease.
\<close>

theorem launch_counters_never_decrease:
  "counters_not_decreased (updates (database s)) (updates (database (mark_steps ms s)))
   \<and> list_all2 (row_step m) (updates (database s)) (updates (database (mark_step m s)))
   \<and> (isEmergencyLaunch s \<or> controller_launchedUpdate s = None \<longrightarrow>
        database (mark_steps ms s) = database s
        \<and> snd (snd (markFailedLaunchForLaunchedUpdate s)) = []
        \<and> snd (snd (markSuccessfulLaunchForLaunchedUpdate s)) = [])"
  using mark_steps_counters [of s ms] mark_step_rows [of m s] mark_steps_inert [of s ms]
  by (auto simp add: markFailedLaunchForLaunchedUpdate_def
        markSuccessfulLaunchForLaunchedUpdate_def)

theorem launch_counters_never_decrease_witness:
  "updates (database (mark_steps [MarkFailed, MarkSuccessful, MarkSuccessful] example_launched)) =
     [example_U2\<lparr>failedLaunchCount := 1, successfulLaunchCount := 3\<rparr>, example_U3]
   \<and> counters_not_decreased (updates (database example_launched))
        (updates (database (mark_steps [MarkFailed, MarkSuccessful, MarkSuccessful] example_launched)))
   \<and> isEmergencyLaunch example_emergency
   \<and> database (mark_steps [MarkFailed, MarkSuccessful] example_emergency) = example_database"
proof -
  have 1: "updates (database (mark_steps [MarkFailed, MarkSuccessful, MarkSuccessful] example_launched)) =
     [example_U2\<lparr>failedLaunchCount := 1, successfulLaunchCount := 3\<rparr>, example_U3]"
    by (simp add: markFailedLaunchForLaunchedUpdate_def markSuccessfulLaunchForLaunchedUpdate_def
          example_launched_fields controller_launchedUpdate_def example_launcher_def
          incrementFailedLaunchCount_def incrementSuccessfulLaunchCount_def
          example_database_def example_U2_def example_U3_def)
  show ?thesis
    using launch_counters_never_decrease
            [of example_launched "[MarkFailed, MarkSuccessful, MarkSuccessful]" MarkFailed]
          launch_counters_never_decrease
            [of example_emergency "[MarkFailed, MarkSuccessful]" MarkFailed]
          1
    by (simp add: example_emergency_fields)
qed

subsection \<open>The blocking getter\<close>

lemma notifyController_flag:
  "isLoaderTaskFinished s \<Longrightarrow> isLoaderTaskFinished (fst (snd (notifyController s)))"
  by (simp add: notifyController_def)

lemma concurrent_run_flag_mono:
  "isLoaderTaskFinished s \<Longrightarrow> isLoaderTaskFinished (fst (snd (concurrent_run ctx c s)))"
  by (cases c)
     (auto simp add: start_def Let_def notifyController_def LoaderTaskCallback_onSuccess_def
        LoaderTaskCallback_onFailure_def relaunchReactApplication_def setLauncher_def
        split: option.splits sum.splits)

lemma concurrent_steps_flag_mono:
  "isLoaderTaskFinished s \<Longrightarrow> isLoaderTaskFinished (concurrent_steps ctx cs s)"
  by (induction cs arbitrary: s) (simp_all add: concurrent_run_flag_mono)

lemma wakeup_step_flag_mono:
  "isLoaderTaskFinished s \<Longrightarrow> isLoaderTaskFinished (wakeup_step ctx w s)"
  by (cases w) (simp_all add: concurrent_steps_flag_mono)

lemma wakeup_steps_flag_mono:
  "isLoaderTaskFinished s \<Longrightarrow> isLoaderTaskFinished (wakeup_steps ctx ws s)"
  by (induction ws arbitrary: s) (simp_all add: wakeup_step_flag_mono)

lemma wakeup_steps_append:
  "wakeup_steps ctx (xs @ ys) s = wakeup_steps ctx ys (wakeup_steps ctx xs s)"
  by (induction xs arbitrary: s) simp_all

lemma flag_set_by_notifyController:
  "\<not> isLoaderTaskFinished s \<Longrightarrow> isLoaderTaskFinished (fst (snd (concurrent_run ctx c s))) \<Longrightarrow>
     Notify \<in> set (snd (snd (concurrent_run ctx c s)))"
  by (cases c)
     (auto simp add: start_def Let_def notifyController_def LoaderTaskCallback_onSuccess_def
        LoaderTaskCallback_onFailure_def relaunchReactApplication_def setLauncher_def
        split: option.splits sum.splits if_splits)

lemma get_launchAssetFile_None:
  "get_launchAssetFile ctx s ws = None \<longleftrightarrow> \<not> isLoaderTaskFinished (wakeup_steps ctx ws s)"
proof (induction ws arbitrary: s)
  case Nil
  show ?case by simp
next
  case (Cons w ws)
  show ?case
  proof (cases "isLoaderTaskFinished s")
    case True
    then have "isLoaderTaskFinished (wakeup_steps ctx (w # ws) s)"
      by (rule wakeup_steps_flag_mono)
    with True show ?thesis by simp
  next
    case False
    then show ?thesis using Cons.IH [of "wakeup_step ctx w s"] by simp
  qed
qed

lemma get_launchAssetFile_Some:
  assumes "get_launchAssetFile ctx s ws = Some (r, s', rest)"
  shows "isLoaderTaskFinished s' \<and> r = controller_launchAssetFile s'
       \<and> (isLoaderTaskFinished s \<longrightarrow> s' = s \<and> rest = ws)
       \<and> (\<not> isLoaderTaskFinished s \<longrightarrow>
            (\<exists>pre w. ws = pre @ w # rest
                    \<and> \<not> isLoaderTaskFinished (wakeup_steps ctx pre s)
                    \<and> s' = wakeup_step ctx w (wakeup_steps ctx pre s)))"
  using assms
proof (induction ws arbitrary: s)
  case Nil
  then show ?case by (auto split: if_splits)
next
  case (Cons w ws)
  show ?case
  proof (cases "isLoaderTaskFinished s")
    case True
    then show ?thesis using Cons.prems by auto
  next
    case False
    then have g: "get_launchAssetFile ctx (wakeup_step ctx w s) ws = Some (r, s', rest)"
      using Cons.prems by simp
    note ih = Cons.IH [OF g]
    show ?thesis
    proof (cases "isLoaderTaskFinished (wakeup_step ctx w s)")
      case True
      with ih have "s' = wakeup_step ctx w s" "rest = ws" by simp_all
      then have "w # ws = [] @ w # rest \<and> \<not> isLoaderTaskFinished (wakeup_steps ctx [] s)
                  \<and> s' = wakeup_step ctx w (wakeup_steps ctx [] s)"
        using False by simp
      then have "\<exists>pre w'. w # ws = pre @ w' # rest
                    \<and> \<not> isLoaderTaskFinished (wakeup_steps ctx pre s)
                    \<and> s' = wakeup_step ctx w' (wakeup_steps ctx pre s)"
        by blast
      then show ?thesis using ih False by simp
    next
      case n: False
      with ih obtain pre w' where
        p: "ws = pre @ w' # rest"
           "\<not> isLoaderTaskFinished (wakeup_steps ctx pre (wakeup_step ctx w s))"
           "s' = wakeup_step ctx w' (wakeup_steps ctx pre (wakeup_step ctx w s))"
        by auto
      then have "w # ws = (w # pre) @ w' # rest
                   \<and> \<not> isLoaderTaskFinished (wakeup_steps ctx (w # pre) s)
                   \<and> s' = wakeup_step ctx w' (wakeup_steps ctx (w # pre) s)"
        by simp
      then have "\<exists>pre w'. w # ws = pre @ w' # rest
                    \<and> \<not> isLoaderTaskFinished (wakeup_steps ctx pre s)
                    \<and> s' = wakeup_step ctx w' (wakeup_steps ctx pre s)"
        by blast
      then show ?thesis using ih False by simp
    qed
  qed
qed

lemma NoDatabaseLauncher_no_file: "launchAssetFile (NoDatabaseLauncher ctx e) = None"
  by (simp add: NoDatabaseLauncher_def AppLauncherNoDatabase_init_def)

lemma onFailure_emergency:
  "isLoaderTaskFinished (fst (snd (LoaderTaskCallback_onFailure ctx e s)))
   \<and> isEmergencyLaunch (fst (snd (LoaderTaskCallback_onFailure ctx e s)))
   \<and> launcher (fst (snd (LoaderTaskCallback_onFailure ctx e s))) =
       Some (NoDatabaseLauncher ctx (Some e))"
  by (simp add: LoaderTaskCallback_onFailure_def notifyController_def)

text \<open>
  C1, amended. A call of \<open>launchAssetFile\<close> is still waiting at the end of the
  wake-ups it is run against exactly when \<open>isLoaderTaskFinished\<close> is still false
  then; and a call on the controller that turns the flag from false to true has gone
  through \<open>notifyController\<close> (from a terminal callback of the loader task, or from
  \<open>start\<close> on its two no-database paths). When the call returns, the flag is set and
  the result is the launch asset file of the launcher then in place. If the flag was
  set at the call, it returns at once, in the same state and with no wake-up consumed;
  otherwise it returns at the first wake-up after which the flag is set. The result
  is null when no launcher is in place and when the launcher in place is the
  no-database launcher, which the loader task's \<open>onFailure\<close> installs together with
  the emergency flag and the finished flag. Nothing is said of the emergency flag of
  an engine whose launcher has been replaced since.
\<close>

theorem launchAssetFile_waits_for_notifyController:
  "(get_launchAssetFile ctx s ws = None \<longleftrightarrow> \<not> isLoaderTaskFinished (wakeup_steps ctx ws s))
   \<and> (\<forall>c s0. \<not> isLoaderTaskFinished s0
               \<and> isLoaderTaskFinished (fst (snd (concurrent_run ctx c s0)))
         \<longrightarrow> Notify \<in> set (snd (snd (concurrent_run ctx c s0))))
   \<and> (\<forall>r s' rest. get_launchAssetFile ctx s ws = Some (r, s', rest) \<longrightarrow>
         isLoaderTaskFinished s' \<and> r = controller_launchAssetFile s'
         \<and> (isLoaderTaskFinished s \<longrightarrow> s' = s \<and> rest = ws)
         \<and> (\<not> isLoaderTaskFinished s \<longrightarrow>
              (\<exists>pre w. ws = pre @ w # rest
                      \<and> \<not> isLoaderTaskFinished (wakeup_steps ctx pre s)
                      \<and> s' = wakeup_step ctx w (wakeup_steps ctx pre s)))
         \<and> (launcher s' = None \<longrightarrow> r = None)
         \<and> (\<forall>e. launcher s' = Some (NoDatabaseLauncher ctx e) \<longrightarrow> r = None))
   \<and> (\<forall>e s0. isLoaderTaskFinished (fst (snd (LoaderTaskCallback_onFailure ctx e s0)))
         \<and> isEmergencyLaunch (fst (snd (LoaderTaskCallback_onFailure ctx e s0)))
         \<and> launcher (fst (snd (LoaderTaskCallback_onFailure ctx e s0))) =
             Some (NoDatabaseLauncher ctx (Some e)))"
proof -
  have n: "r = None"
    if "get_launchAssetFile ctx s ws = Some (r, s', rest)"
      and "launcher s' = None \<or> (\<exists>e. launcher s' = Some (NoDatabaseLauncher ctx e))"
    for r s' rest
    using get_launchAssetFile_Some [OF that(1)] that(2)
    by (auto simp add: controller_launchAssetFile_def NoDatabaseLauncher_no_file)
  show ?thesis
    using get_launchAssetFile_None [of ctx s ws] get_launchAssetFile_Some [of ctx s ws] n
      flag_set_by_notifyController [of _ ctx] onFailure_emergency [of ctx]
    by blast
qed

lemma example_disabled_eq:
  "example_disabled =
     (UpdatesController example_context example_configuration_disabled)
       \<lparr>isStarted := True,
        launcher := Some (NoDatabaseLauncher example_context None),
        isLoaderTaskFinished := True\<rparr>"
  by (simp add: example_disabled_def start_def UpdatesController_def example_context_def
        notifyController_def example_configuration_disabled_def
        example_configuration_def Let_def)

lemma example_failed_eq:
  "example_failed =
     example_started
       \<lparr>launcher := Some (NoDatabaseLauncher example_context (Some ''network unreachable'')),
        isEmergencyLaunch := True, isLoaderTaskFinished := True\<rparr>"
  by (simp add: example_failed_def LoaderTaskCallback_onFailure_def notifyController_def)

lemma example_relaunched_eq:
  "example_relaunched = example_failed\<lparr>launcher := Some example_launcher\<rparr>"
  by (simp add: example_relaunched_def relaunchReactApplication_def example_failed_eq
        example_started_eq UpdatesController_def example_context_def)

text \<open>
  C1 as stated fails in its clause that the result is null exactly on an emergency
  launch, in both directions. Started with updates disabled, the engine installs the
  no-database launcher and signals completion without setting the emergency flag, and
  \<open>launchAssetFile\<close> returns null at once. And after an emergency launch (the loader
  task failed) followed by a relaunch that succeeds, the emergency flag is still set
  and \<open>launchAssetFile\<close> returns the path of the relaunched update's bundle.
\<close>

theorem launchAssetFile_null_counterexample:
  "isStarted example_disabled
   \<and> get_launchAssetFile example_context example_disabled [] = Some (None, example_disabled, [])
   \<and> \<not> isEmergencyLaunch example_disabled
   \<and> isStarted example_relaunched
   \<and> isEmergencyLaunch example_relaunched
   \<and> get_launchAssetFile example_context example_relaunched [] =
       Some (Some ''/data/app/files/.expo-internal/u2-bundle'', example_relaunched, [])"
proof -
  have 1: "isStarted example_disabled
     \<and> get_launchAssetFile example_context example_disabled [] = Some (None, example_disabled, [])
     \<and> \<not> isEmergencyLaunch example_disabled"
    by (simp add: example_disabled_eq UpdatesController_def controller_launchAssetFile_def
          NoDatabaseLauncher_no_file)
  have 2: "isStarted example_relaunched \<and> isEmergencyLaunch example_relaunched
     \<and> isLoaderTaskFinished example_relaunched
     \<and> controller_launchAssetFile example_relaunched =
         Some ''/data/app/files/.expo-internal/u2-bundle''"
    by (simp add: example_relaunched_eq example_failed_eq example_started_eq
          controller_launchAssetFile_def example_launcher_def)
  show ?thesis using 1 2 by simp
qed

theorem launchAssetFile_waits_for_notifyController_witness:
  "\<not> isLoaderTaskFinished example_started
   \<and> get_launchAssetFile example_context example_started
       [InterruptedException [], WaitReturned [SetLauncherCalled None]] = None
   \<and> get_launchAssetFile example_context example_started
       [InterruptedException [], WaitReturned [LoaderTaskOnSuccess example_launcher True],
        WaitReturned []] =
       Some (Some ''/data/app/files/.expo-internal/u2-bundle'', example_launched,
             [WaitReturned []])
   \<and> get_launchAssetFile example_context example_launched [] =
       Some (Some ''/data/app/files/.expo-internal/u2-bundle'', example_launched, [])
   \<and> get_launchAssetFile example_context_no_directory
       (UpdatesController example_context_no_directory example_configuration)
       [WaitReturned [StartCalled]] =
       Some (None, example_emergency, [])
   \<and> launcher example_failed =
       Some (NoDatabaseLauncher example_context (Some ''network unreachable''))
   \<and> get_launchAssetFile example_context example_failed [] = Some (None, example_failed, [])"
proof -
  have 1: "\<not> isLoaderTaskFinished example_started"
    by (simp add: example_started_eq UpdatesController_def)
  have f: "controller_launchAssetFile example_launched =
             Some ''/data/app/files/.expo-internal/u2-bundle''"
    by (simp add: example_launched_fields controller_launchAssetFile_def example_launcher_def)
  have s6: "wakeup_steps example_context
             [InterruptedException [], WaitReturned [SetLauncherCalled None]] example_started =
           example_started\<lparr>launcher := None\<rparr>"
    by (simp add: setLauncher_def)
  have n: "get_launchAssetFile example_context example_started
       [InterruptedException [], WaitReturned [SetLauncherCalled None]] = None"
    using launchAssetFile_waits_for_notifyController
            [of example_context example_started
                "[InterruptedException [], WaitReturned [SetLauncherCalled None]]",
             THEN conjunct1] 1
    by (simp only: s6) simp
  have a: "wakeup_step example_context
             (WaitReturned [LoaderTaskOnSuccess example_launcher True]) example_started =
           example_launched"
    by (simp add: example_launched_def)
  have i: "wakeup_step example_context (InterruptedException []) example_started =
           example_started"
    by simp
  have fl: "isLoaderTaskFinished example_launched"
    by (simp add: example_launched_fields)
  have 2: "get_launchAssetFile example_context example_started
       [InterruptedException [], WaitReturned [LoaderTaskOnSuccess example_launcher True],
        WaitReturned []] =
       Some (Some ''/data/app/files/.expo-internal/u2-bundle'', example_launched,
             [WaitReturned []])"
    using 1 fl by (simp only: get_launchAssetFile.simps i a f if_True if_False simp_thms)
  have 3: "get_launchAssetFile example_context example_launched [] =
       Some (Some ''/data/app/files/.expo-internal/u2-bundle'', example_launched, [])"
    using fl by (simp add: f)
  have b: "wakeup_step example_context_no_directory (WaitReturned [StartCalled])
       (UpdatesController example_context_no_directory example_configuration) = example_emergency"
    by (simp add: example_emergency_def)
  have c: "\<not> isLoaderTaskFinished
       (UpdatesController example_context_no_directory example_configuration)"
    by (simp add: UpdatesController_def)
  have 4: "get_launchAssetFile example_context_no_directory
       (UpdatesController example_context_no_directory example_configuration)
       [WaitReturned [StartCalled]] =
       Some (None, example_emergency, [])"
    using c
    by (simp only: get_launchAssetFile.simps b example_emergency_fields if_True if_False simp_thms)
  have 5: "launcher example_failed =
       Some (NoDatabaseLauncher example_context (Some ''network unreachable''))"
    and ff: "isLoaderTaskFinished example_failed"
    by (simp_all add: example_failed_eq)
  have 7: "get_launchAssetFile example_context example_failed [] = Some (None, example_failed, [])"
    using ff 5 by (simp add: controller_launchAssetFile_def NoDatabaseLauncher_no_file)
  show ?thesis
    using 1 n 2 3 4 5 7 by (intro conjI)
qed

end
